theory Spec2Isabelle
  imports Complex_Main
begin

section \<open>Python values\<close>

text \<open>
  The program is one Python file, \<^verbatim>\<open>auto_checkin.py\<close>. A Python \<^verbatim>\<open>str\<close> is a sequence of
  Unicode code points, so a string is modelled as a list of code points (natural numbers):
  \<open>length\<close> and slicing then count what Python counts. \<open>str\<close> turns an ASCII literal
  into such a string; the non-ASCII literals of the source are written out as code points.
\<close>

type_synonym pystr = "nat list"

definition str :: "string \<Rightarrow> pystr" where
  "str s = map of_char s"

text \<open>
  A Python \<^verbatim>\<open>float\<close> is a finite binary fraction, a NaN or an infinity. Every finite float
  is a rational number, so \<open>Finite q\<close> covers all of them.
\<close>

datatype pyfloat = Finite rat | NaN | PosInf | NegInf

text \<open>
  The values that \<^verbatim>\<open>json.loads\<close> can return, which are also the values the program stores
  in its untyped dictionaries. A dictionary is an association list in insertion order.
\<close>

datatype pyval =
    PNone
  | PBool bool
  | PInt int
  | PFloat pyfloat
  | PStr pystr
  | PList "pyval list"
  | PDict "(pystr \<times> pyval) list"

datatype exn =
    SystemExit pystr
  | AttributeError
  | TypeError
  | ValueError
  | OverflowError
  | KeyError

text \<open>Truth value testing, as \<^verbatim>\<open>not x\<close>, \<^verbatim>\<open>x or y\<close> and \<^verbatim>\<open>if x\<close> use it.\<close>

fun truthy :: "pyval \<Rightarrow> bool" where
  "truthy PNone = False"
| "truthy (PBool b) = b"
| "truthy (PInt i) = (i \<noteq> 0)"
| "truthy (PFloat f) = (f \<noteq> Finite 0)"
| "truthy (PStr s) = (s \<noteq> [])"
| "truthy (PList xs) = (xs \<noteq> [])"
| "truthy (PDict kvs) = (kvs \<noteq> [])"

definition py_or :: "pyval \<Rightarrow> pyval \<Rightarrow> pyval" where
  "py_or a b = (if truthy a then a else b)"


text \<open>\<^verbatim>\<open>d.get(k)\<close> on a dictionary: the value, or \<^verbatim>\<open>None\<close>.\<close>

definition dict_get :: "(pystr \<times> pyval) list \<Rightarrow> pystr \<Rightarrow> pyval" where
  "dict_get kvs k = (case map_of kvs k of Some v \<Rightarrow> v | None \<Rightarrow> PNone)"

text \<open>\<^verbatim>\<open>x.get(k, dflt)\<close> on any value: only a dictionary has the method.\<close>

fun py_get :: "pyval \<Rightarrow> pystr \<Rightarrow> pyval \<Rightarrow> exn + pyval" where
  "py_get (PDict kvs) k dflt = Inr (case map_of kvs k of Some v \<Rightarrow> v | None \<Rightarrow> dflt)"
| "py_get v k dflt = Inl AttributeError"

text \<open>Decimal rendering of an integer, as an f-string renders it.\<close>

fun digits10 :: "nat \<Rightarrow> pystr" where
  "digits10 n = (if n < 10 then [48 + n] else digits10 (n div 10) @ [48 + n mod 10])"

declare digits10.simps [simp del]

definition show_int :: "int \<Rightarrow> pystr" where
  "show_int i = (if i < 0 then 45 # digits10 (nat (- i)) else digits10 (nat i))"

text \<open>
  The functions of the Python standard library that the program calls and that are not
  part of this repository are parameters of the model:
  \<^item> \<open>json_loads\<close>: \<^verbatim>\<open>json.loads\<close>, \<open>None\<close> when it raises;
  \<^item> \<open>json_dumps\<close>: \<^verbatim>\<open>json.dumps(_, ensure_ascii=False, indent=2)\<close>;
  \<^item> \<open>charref_sub\<close>: the replacement of character references that \<^verbatim>\<open>html.unescape\<close>
    performs on a string that contains an ampersand;
  \<^item> \<open>json_error\<close>: the text of the exception that \<^verbatim>\<open>json.loads\<close> raises on a text;
  \<^item> \<open>int_of_str\<close>: \<^verbatim>\<open>int(s)\<close> on a string, \<open>None\<close> when it raises \<^verbatim>\<open>ValueError\<close>;
  \<^item> \<open>py_repr\<close>: how an f-string renders a float, a list or a dictionary.
\<close>

record pylib =
  json_loads :: "pystr \<Rightarrow> pyval option"
  json_dumps :: "pyval \<Rightarrow> pystr"
  json_error :: "pystr \<Rightarrow> pystr"
  charref_sub :: "pystr \<Rightarrow> pystr"
  int_of_str :: "pystr \<Rightarrow> int option"
  py_repr :: "pyval \<Rightarrow> pystr"

text \<open>\<^verbatim>\<open>html.unescape\<close> returns a string without an ampersand unchanged.\<close>

definition html_unescape :: "pylib \<Rightarrow> pystr \<Rightarrow> pystr" where
  "html_unescape L s = (if 38 \<notin> set s then s else charref_sub L s)"

text \<open>Formatting inside an f-string (\<^verbatim>\<open>str(v)\<close>).\<close>

fun py_format :: "pylib \<Rightarrow> pyval \<Rightarrow> pystr" where
  "py_format L PNone = str ''None''"
| "py_format L (PBool b) = (if b then str ''True'' else str ''False'')"
| "py_format L (PInt i) = show_int i"
| "py_format L (PStr s) = s"
| "py_format L v = py_repr L v"

section \<open>Regular expressions\<close>

text \<open>
  The three patterns of the source are sequences of literals, repetitions of one character
  class and one capturing group. \<open>alts\<close> lists the ways an atom can match at the start of
  a text in the order in which Python's backtracking matcher tries them (a greedy repetition
  the longest run first, a lazy one the shortest first); each way is the text that is left
  and the groups captured.
\<close>

datatype atom =
    Lit pystr
  | Greedy nat "nat \<Rightarrow> bool"
  | Lazy "nat \<Rightarrow> bool"
  | Cap atom

fun alts :: "atom \<Rightarrow> pystr \<Rightarrow> (pystr \<times> pystr list) list" where
  "alts (Lit p) xs = (if take (length p) xs = p then [(drop (length p) xs, [])] else [])"
| "alts (Greedy m P) xs =
     map (\<lambda>n. (drop n xs, [])) (rev [m..<Suc (length (takeWhile P xs))])"
| "alts (Lazy P) xs =
     map (\<lambda>n. (drop n xs, [])) [0..<Suc (length (takeWhile P xs))]"
| "alts (Cap a) xs =
     map (\<lambda>(r, gs). (r, take (length xs - length r) xs # gs)) (alts a xs)"

fun alts_seq :: "atom list \<Rightarrow> pystr \<Rightarrow> (pystr \<times> pystr list) list" where
  "alts_seq [] xs = [(xs, [])]"
| "alts_seq (a # as) xs =
     concat (map (\<lambda>(r, gs). map (\<lambda>(r', gs'). (r', gs @ gs')) (alts_seq as r)) (alts a xs))"

text \<open>
  \<^verbatim>\<open>re.search\<close>: the first way to match at the leftmost position that has one; the result is
  the list of groups.
\<close>

fun re_search :: "atom list \<Rightarrow> pystr \<Rightarrow> pystr list option" where
  "re_search pat [] = (case alts_seq pat [] of [] \<Rightarrow> None | (r, gs) # _ \<Rightarrow> Some gs)"
| "re_search pat (x # xs) =
     (case alts_seq pat (x # xs) of [] \<Rightarrow> re_search pat xs | (r, gs) # _ \<Rightarrow> Some gs)"

text \<open>
  \<^verbatim>\<open>re.findall\<close> for a pattern without groups: the matched texts, left to right, each search
  starting where the previous match ended (one character further after an empty match).
\<close>

function re_findall :: "atom list \<Rightarrow> pystr \<Rightarrow> pystr list" where
  "re_findall pat xs =
     (case alts_seq pat xs of
        [] \<Rightarrow> (case xs of [] \<Rightarrow> [] | _ # ys \<Rightarrow> re_findall pat ys)
      | (r, gs) # _ \<Rightarrow>
          (let m = take (length xs - length r) xs
           in if m = [] then (case xs of [] \<Rightarrow> [m] | _ # ys \<Rightarrow> m # re_findall pat ys)
              else m # re_findall pat (drop (length m) xs)))"
  by pat_completeness auto
termination
  by (relation "measure (\<lambda>(pat, xs). length xs)") auto

declare re_findall.simps [simp del]

text \<open>\<^verbatim>\<open>sub in s\<close> on strings.\<close>

fun contains :: "pystr \<Rightarrow> pystr \<Rightarrow> bool" where
  "contains sub [] = (sub = [])"
| "contains sub (x # xs) = (take (length sub) (x # xs) = sub \<or> contains sub xs)"

section \<open>Masking a redemption code\<close>

text \<open>
  \<^verbatim>\<open>mask_code\<close>: \<^verbatim>\<open>code[:4]\<close> is the first four characters and \<^verbatim>\<open>code[-4:]\<close> the last four
  of a string of at least four.
\<close>

definition mask_code :: "pystr \<Rightarrow> pystr" where
  "mask_code code =
     (if code = [] \<or> length code < 8 then str ''****''
      else take 4 code @ str ''****'' @ drop (length code - 4) code)"

section \<open>One draw: \<^verbatim>\<open>luckydraw_once\<close>\<close>

text \<open>
  What \<^verbatim>\<open>requests.post\<close> gives back: an exception with its text, or a response with its
  status code, its body as \<^verbatim>\<open>r.text\<close> and its body as
  \<^verbatim>\<open>r.content.decode("utf-8", errors="replace")\<close>, which never raises.
\<close>

record response =
  status_code :: int
  body_text :: pystr
  content_utf8 :: pystr

datatype reply = Raised pystr | Replied response

text \<open>Character classes: \<^verbatim>\<open>\s\<close> on a \<^verbatim>\<open>str\<close> pattern is Unicode white space.\<close>

definition is_space :: "nat \<Rightarrow> bool" where
  "is_space c \<longleftrightarrow>
     (0x09 \<le> c \<and> c \<le> 0x0D) \<or> (0x1C \<le> c \<and> c \<le> 0x20) \<or> c = 0x85 \<or> c = 0xA0
     \<or> c = 0x1680 \<or> (0x2000 \<le> c \<and> c \<le> 0x200A) \<or> c = 0x2028 \<or> c = 0x2029
     \<or> c = 0x202F \<or> c = 0x205F \<or> c = 0x3000"

definition is_hex :: "nat \<Rightarrow> bool" where
  "is_hex c \<longleftrightarrow> (48 \<le> c \<and> c \<le> 57) \<or> (97 \<le> c \<and> c \<le> 102) \<or> (65 \<le> c \<and> c \<le> 70)"

definition not_newline :: "nat \<Rightarrow> bool" where
  "not_newline c \<longleftrightarrow> c \<noteq> 10"

definition any_char :: "nat \<Rightarrow> bool" where
  "any_char c \<longleftrightarrow> True"

text \<open>\<^verbatim>\<open>"redemptionCode"\s*:\s*"([0-9a-fA-F]{16,})"\<close>\<close>

definition pat_code :: "atom list" where
  \<open>pat_code =
     [Lit (str ''"redemptionCode"''), Greedy 0 is_space, Lit (str '':''), Greedy 0 is_space,
      Lit (str ''"''), Cap (Greedy 16 is_hex), Lit (str ''"'')]\<close>

text \<open>\<^verbatim>\<open>"message"\s*:\s*"(.*?)"\<close>: without \<^verbatim>\<open>re.S\<close> the dot matches all but a line feed.\<close>

definition pat_message :: "atom list" where
  \<open>pat_message =
     [Lit (str ''"message"''), Greedy 0 is_space, Lit (str '':''), Greedy 0 is_space,
      Lit (str ''"''), Cap (Lazy not_newline), Lit (str ''"'')]\<close>

text \<open>\<^verbatim>\<open>\{.*?\}\<close> with \<^verbatim>\<open>re.S\<close>: the dot matches every character.\<close>

definition pat_object :: "atom list" where
  "pat_object = [Lit (str ''{''), Lazy any_char, Lit (str ''}'')]"

text \<open>\<^verbatim>\<open>m.group(1)\<close> of a search, \<open>None\<close> when there is no match.\<close>

definition group1 :: "pystr list option \<Rightarrow> pystr option" where
  "group1 m = (case m of Some (g # _) \<Rightarrow> Some g | _ \<Rightarrow> None)"

text \<open>
  The loop over the fragments, last first: the first one that \<^verbatim>\<open>json.loads\<close> accepts is
  kept, and \<^verbatim>\<open>parsed\<close> stays the empty dictionary when none is.
\<close>

fun first_loads :: "pylib \<Rightarrow> pystr list \<Rightarrow> pyval" where
  "first_loads L [] = PDict []"
| "first_loads L (part # parts) =
     (case json_loads L part of Some v \<Rightarrow> v | None \<Rightarrow> first_loads L parts)"

text \<open>
  The part of \<^verbatim>\<open>luckydraw_once\<close> after the status checks. The search for
  \<^verbatim>\<open>"success"\<close> is left out: its result is never read.
\<close>

definition interpret_response :: "pylib \<Rightarrow> int \<Rightarrow> pystr \<Rightarrow> pyval \<times> pyval \<times> pyval" where
  "interpret_response L status txt =
     (let redemption = (case group1 (re_search pat_code txt) of
                          Some g \<Rightarrow> PStr g | None \<Rightarrow> PNone);
          msg = (case group1 (re_search pat_message txt) of
                   Some g \<Rightarrow> PStr (html_unescape L g) | None \<Rightarrow> PStr []);
          parsed = first_loads L (rev (re_findall pat_object txt));
          redemption = (case parsed of
                          PDict kvs \<Rightarrow>
                            if \<not> truthy redemption \<and> truthy parsed
                            then dict_get kvs (str ''redemptionCode'') else redemption
                        | _ \<Rightarrow> redemption);
          msg = (case parsed of
                   PDict kvs \<Rightarrow>
                     if \<not> truthy msg \<and> truthy parsed
                     then py_or (dict_get kvs (str ''message'')) (PStr []) else msg
                 | _ \<Rightarrow> msg);
          msg = (if \<not> truthy msg then PStr (str ''HTTP '' @ show_int status) else msg)
      in (redemption, msg, parsed))"

text \<open>The fixed messages of \<^verbatim>\<open>luckydraw_once\<close>, as code points.\<close>

definition msg_request_exception :: pystr where
  "msg_request_exception = [0x8BF7, 0x6C42, 0x5F02, 0x5E38, 0xFF1A]"

definition msg_401 :: pystr where
  "msg_401 =
     [0x62BD, 0x5956, 0x63A5, 0x53E3, 0x8FD4, 0x56DE] @ str '' 401'' @
     [0xFF0C, 0x7591, 0x4F3C, 0x672A, 0x767B, 0x5F55, 0x6216] @ str '' Cookie '' @
     [0x5931, 0x6548, 0x3002]"

definition msg_403_challenge :: pystr where
  "msg_403_challenge =
     [0x62BD, 0x5956, 0x63A5, 0x53E3, 0x8FD4, 0x56DE] @ str '' 403'' @ [0xFF08] @
     str ''Cloudflare '' @ [0x6311, 0x6218, 0xFF09, 0xFF0C, 0x8BF7, 0x66F4, 0x65B0] @
     str '' LUCKYDRAW_COOKIE/Next-Action '' @ [0x53C2, 0x6570, 0x3002]"

definition msg_403_expired :: pystr where
  "msg_403_expired =
     [0x62BD, 0x5956, 0x63A5, 0x53E3, 0x8FD4, 0x56DE] @ str '' 403'' @
     [0xFF0C, 0x53EF, 0x80FD] @ str '' Cookie '' @ [0x6216] @ str '' next-action '' @
     [0x53C2, 0x6570, 0x5DF2, 0x8FC7, 0x671F, 0x3002]"

definition msg_server_error :: pystr where
  "msg_server_error =
     [0x62BD, 0x5956, 0x63A5, 0x53E3, 0x670D, 0x52A1, 0x5668, 0x9519, 0x8BEF, 0xFF1A] @
     str ''HTTP ''"

definition luckydraw_once :: "pylib \<Rightarrow> reply \<Rightarrow> pyval \<times> pyval \<times> pyval" where
  "luckydraw_once L rp =
     (case rp of
        Raised e \<Rightarrow> (PNone, PStr (msg_request_exception @ e), PDict [])
      | Replied r \<Rightarrow>
          if status_code r = 401 then
            (PNone, PStr msg_401, PDict [(str ''status'', PInt (status_code r))])
          else if status_code r = 403 then
            (let preview = take 200 (body_text r);
                 hint = (if contains (str ''Just a moment'') preview
                         then msg_403_challenge else msg_403_expired)
             in (PNone, PStr hint,
                 PDict [(str ''status'', PInt (status_code r)), (str ''preview'', PStr preview)]))
          else if status_code r \<ge> 500 then
            (PNone, PStr (msg_server_error @ show_int (status_code r)),
             PDict [(str ''status'', PInt (status_code r))])
          else interpret_response L (status_code r) (content_utf8 r))"

section \<open>The state store\<close>

text \<open>
  \<^verbatim>\<open>int(v)\<close>. A boolean is an integer in Python; a float is truncated towards zero.
\<close>

fun py_int :: "pylib \<Rightarrow> pyval \<Rightarrow> exn + int" where
  "py_int L PNone = Inl TypeError"
| "py_int L (PBool b) = Inr (if b then 1 else 0)"
| "py_int L (PInt i) = Inr i"
| "py_int L (PFloat (Finite q)) = Inr (if 0 \<le> q then \<lfloor>q\<rfloor> else \<lceil>q\<rceil>)"
| "py_int L (PFloat NaN) = Inl ValueError"
| "py_int L (PFloat PosInf) = Inl OverflowError"
| "py_int L (PFloat NegInf) = Inl OverflowError"
| "py_int L (PStr s) = (case int_of_str L s of Some i \<Rightarrow> Inr i | None \<Rightarrow> Inl ValueError)"
| "py_int L (PList xs) = Inl TypeError"
| "py_int L (PDict kvs) = Inl TypeError"

text \<open>Sequencing of calls that may raise.\<close>

definition bind_exn :: "exn + 'a \<Rightarrow> ('a \<Rightarrow> exn + 'b) \<Rightarrow> exn + 'b" where
  "bind_exn m f = (case m of Inl e \<Rightarrow> Inl e | Inr x \<Rightarrow> f x)"

text \<open>\<^verbatim>\<open>d[k] = v\<close>: an existing key keeps its place, a new one goes last.\<close>

fun dict_set :: "(pystr \<times> pyval) list \<Rightarrow> pystr \<Rightarrow> pyval \<Rightarrow> (pystr \<times> pyval) list" where
  "dict_set [] k v = [(k, v)]"
| "dict_set ((k', v') # kvs) k v =
     (if k' = k then (k, v) # kvs else (k', v') # dict_set kvs k v)"

text \<open>
  The state file: \<open>None\<close> when \<^verbatim>\<open>STATE_FILE.read_text\<close> raises (the file is missing or
  cannot be read or decoded), its text otherwise. \<^verbatim>\<open>load_state\<close> catches every exception.
\<close>

definition load_state :: "pylib \<Rightarrow> pystr option \<Rightarrow> pyval" where
  "load_state L file =
     (case file of
        None \<Rightarrow> PDict []
      | Some t \<Rightarrow> (case json_loads L t of None \<Rightarrow> PDict [] | Some v \<Rightarrow> v))"

text \<open>
  \<^verbatim>\<open>save_state\<close>: the content of the state file after the call. Creating the directory and
  writing the file are taken to succeed.
\<close>

definition save_state :: "pylib \<Rightarrow> pyval \<Rightarrow> pystr option" where
  "save_state L st = Some (json_dumps L st)"

text \<open>
  \<^verbatim>\<open>today_key()\<close> reads the clock; the day key is a parameter \<open>today\<close>, the same for all
  calls of a run.
\<close>

definition get_today_counts :: "pylib \<Rightarrow> pystr \<Rightarrow> pyval \<Rightarrow> exn + int" where
  "get_today_counts L today st =
     bind_exn (py_get st (str ''days'') (PDict [])) (\<lambda>days.
     bind_exn (py_get days today (PDict [])) (\<lambda>d.
     bind_exn (py_get d (str ''tries'') (PInt 0)) (\<lambda>t.
     py_int L t)))"

text \<open>
  \<^verbatim>\<open>bump_today_count\<close> changes the state dictionary in place; the model returns the new
  state. \<^verbatim>\<open>setdefault\<close> and \<^verbatim>\<open>get\<close> exist on dictionaries only. Nothing has been changed
  when one of the calls raises: a default that \<^verbatim>\<open>setdefault\<close> inserts is a dictionary, on
  which the later calls succeed.
\<close>

definition bump_today_count :: "pylib \<Rightarrow> pystr \<Rightarrow> int \<Rightarrow> pyval \<Rightarrow> exn + pyval" where
  "bump_today_count L today inc st =
     (case st of
        PDict skvs \<Rightarrow>
          (case (case map_of skvs (str ''days'') of Some v \<Rightarrow> v | None \<Rightarrow> PDict []) of
             PDict dkvs \<Rightarrow>
               (case (case map_of dkvs today of Some v \<Rightarrow> v
                      | None \<Rightarrow> PDict [(str ''tries'', PInt 0)]) of
                  PDict tkvs \<Rightarrow>
                    bind_exn (py_int L (case map_of tkvs (str ''tries'') of
                                          Some v \<Rightarrow> v | None \<Rightarrow> PInt 0)) (\<lambda>n.
                    Inr (PDict (dict_set skvs (str ''days'')
                           (PDict (dict_set dkvs today
                              (PDict (dict_set tkvs (str ''tries'') (PInt (n + inc)))))))))
                | _ \<Rightarrow> Inl AttributeError)
           | _ \<Rightarrow> Inl AttributeError)
      | _ \<Rightarrow> Inl AttributeError)"

section \<open>Redeeming a code: \<^verbatim>\<open>topup_once\<close>\<close>

definition msg_topup_exception :: pystr where
  "msg_topup_exception = [0x5151, 0x6362, 0x8BF7, 0x6C42, 0x5F02, 0x5E38, 0xFF1A]"

definition msg_topup_http :: pystr where
  "msg_topup_http = [0x5151, 0x6362, 0x63A5, 0x53E3, 0x5F02, 0x5E38, 0xFF1A] @ str ''HTTP ''"

definition msg_topup_parse :: pystr where
  "msg_topup_parse = [0x5151, 0x6362, 0x54CD, 0x5E94, 0x89E3, 0x6790, 0x5931, 0x8D25, 0xFF1A]"

text \<open>
  The result is \<^verbatim>\<open>(ok, msg, data_val)\<close>. The three \<^verbatim>\<open>j.get\<close> calls are outside every
  \<^verbatim>\<open>try\<close>: they raise when the body is JSON but not an object.
\<close>

definition topup_once :: "pylib \<Rightarrow> reply \<Rightarrow> exn + (bool \<times> pyval \<times> pyval)" where
  "topup_once L rp =
     (case rp of
        Raised e \<Rightarrow> Inr (False, PStr (msg_topup_exception @ e), PNone)
      | Replied r \<Rightarrow>
          if status_code r \<ge> 400 then
            Inr (False,
                 PStr (msg_topup_http @ show_int (status_code r) @ str '' '' @
                       take 200 (body_text r)),
                 PNone)
          else
            (case json_loads L (content_utf8 r) of
               None \<Rightarrow> Inr (False, PStr (msg_topup_parse @ json_error L (content_utf8 r)), PNone)
             | Some j \<Rightarrow>
                 bind_exn (py_get j (str ''success'') PNone) (\<lambda>success.
                 bind_exn (py_get j (str ''data'') PNone) (\<lambda>data_val.
                 bind_exn (py_get j (str ''message'') (PStr [])) (\<lambda>msg.
                 Inr (truthy success, msg, data_val))))))"

section \<open>The run: \<^verbatim>\<open>main\<close>\<close>

text \<open>
  The run is modelled without its log lines and its pauses, which no result depends on.
  Every exception that the source does not catch ends the run; the model keeps what the
  run had done by then.
\<close>

text \<open>
  \<^verbatim>\<open>mask_code\<close> applied to whatever \<^verbatim>\<open>luckydraw_once\<close> returned as the code: \<^verbatim>\<open>len\<close> raises
  on a number, and a dictionary cannot be sliced (\<^verbatim>\<open>TypeError\<close>, \<^verbatim>\<open>KeyError\<close> from Python
  3.12 on).
\<close>

definition mask_code_py :: "pylib \<Rightarrow> pyval \<Rightarrow> exn + pystr" where
  "mask_code_py L v =
     (if \<not> truthy v then Inr (str ''****'')
      else case v of
        PStr s \<Rightarrow> Inr (mask_code s)
      | PList xs \<Rightarrow>
          if length xs < 8 then Inr (str ''****'')
          else Inr (py_format L (PList (take 4 xs)) @ str ''****'' @
                    py_format L (PList (drop (length xs - 4) xs)))
      | PDict kvs \<Rightarrow> if length kvs < 8 then Inr (str ''****'') else Inl TypeError
      | _ \<Rightarrow> Inl TypeError)"

text \<open>
  The environment of a run: the configuration read from environment variables, the clock,
  the state file as found, and what the three remote services answer (the draw endpoint to
  its \<open>i\<close>-th request, the top-up endpoint to the code sent in attempt \<open>i\<close>, the push
  endpoint).
\<close>

record env =
  LUCKYDRAW_COOKIE :: pystr
  LUCKYDRAW_NEXT_ACTION :: pystr
  LUCKYDRAW_NEXT_ROUTER_STATE :: pystr
  TOPUP_COOKIE :: pystr
  TOPUP_NEW_API_USER :: pystr
  MAX_TIMES :: int
  PUSH_URL :: pystr
  PUSH_TOKEN :: pystr
  today_key :: pystr
  now_text :: pystr
  state_file :: "pystr option"
  draw_reply :: "nat \<Rightarrow> reply"
  topup_reply :: "nat \<Rightarrow> pyval \<Rightarrow> reply"
  push_reply :: reply

text \<open>
  What a run has done so far: the state dictionary, the state file, the number of requests
  sent to the draw endpoint, the codes sent to the top-up endpoint, and the records
  (each the content of a dictionary).
\<close>

record world =
  state :: pyval
  disk :: "pystr option"
  draws :: nat
  redeemed :: "pyval list"
  results :: "(pystr \<times> pyval) list list"

definition msg_no_code :: pystr where
  "msg_no_code = [0x672A, 0x83B7, 0x53D6, 0x5230, 0x5151, 0x6362, 0x7801]"

text \<open>
  One pass of the loop of \<^verbatim>\<open>main\<close>, without the log lines and the two pauses, in four
  parts: the dictionary literal \<^verbatim>\<open>record\<close>; the branch \<^verbatim>\<open>if code\<close>, which calls
  \<^verbatim>\<open>topup_once\<close>; the branch \<^verbatim>\<open>else\<close>; and the pass itself. The result of a pass is the new
  world and the exception that ended the pass, if one did.
\<close>

definition new_record :: "pyval \<Rightarrow> pyval \<Rightarrow> pystr \<Rightarrow> (pystr \<times> pyval) list" where
  "new_record draw_msg code code_mask =
     [(str ''draw_msg'', py_or draw_msg (PStr [])),
      (str ''code'', py_or code (PStr [])),
      (str ''code_mask'', PStr code_mask),
      (str ''topup_ok'', PBool False),
      (str ''topup_amount'', PStr []),
      (str ''topup_msg'', PStr [])]"

definition redeem ::
  "pylib \<Rightarrow> env \<Rightarrow> nat \<Rightarrow> pyval \<Rightarrow> (pystr \<times> pyval) list \<Rightarrow> world \<Rightarrow> world \<times> exn option" where
  "redeem L E i code record w =
     (let w = w\<lparr>redeemed := redeemed w @ [code]\<rparr>
      in case topup_once L (topup_reply E i code) of
           Inl e \<Rightarrow> (w, Some e)
         | Inr (ok, msg, amount) \<Rightarrow>
             let record = dict_set record (str ''topup_ok'') (PBool ok);
                 record = dict_set record (str ''topup_amount'')
                            (if amount \<noteq> PNone then amount else PStr []);
                 record = dict_set record (str ''topup_msg'') (py_or msg (PStr []))
             in (w\<lparr>results := results w @ [record]\<rparr>, None))"

definition no_code ::
  "pylib \<Rightarrow> pyval \<Rightarrow> (pystr \<times> pyval) list \<Rightarrow> world \<Rightarrow> world \<times> exn option" where
  "no_code L draw_msg record w =
     (let reason = (if truthy draw_msg then draw_msg else PStr msg_no_code);
          record = dict_set record (str ''topup_msg'')
                     (if truthy draw_msg
                      then PStr (msg_no_code @ [0xFF08] @ py_format L reason @ [0xFF09])
                      else reason)
      in (w\<lparr>results := results w @ [record]\<rparr>, None))"

definition attempt :: "pylib \<Rightarrow> env \<Rightarrow> nat \<Rightarrow> world \<Rightarrow> world \<times> exn option" where
  "attempt L E i w =
     (case luckydraw_once L (draw_reply E i) of (code, draw_msg, parsed) \<Rightarrow>
      let w = w\<lparr>draws := Suc (draws w)\<rparr>
      in case bump_today_count L (today_key E) 1 (state w) of
           Inl e \<Rightarrow> (w, Some e)
         | Inr st \<Rightarrow>
             let w = w\<lparr>state := st, disk := save_state L st\<rparr>
             in case (if truthy code then mask_code_py L code else Inr []) of
                  Inl e \<Rightarrow> (w, Some e)
                | Inr code_mask \<Rightarrow>
                    if truthy code
                    then redeem L E i code (new_record draw_msg code code_mask) w
                    else no_code L draw_msg (new_record draw_msg code code_mask) w)"

text \<open>\<^verbatim>\<open>for i in range(need)\<close>: an exception ends the loop and the run.\<close>

fun attempts :: "pylib \<Rightarrow> env \<Rightarrow> nat list \<Rightarrow> world \<Rightarrow> world \<times> exn option" where
  "attempts L E [] w = (w, None)"
| "attempts L E (i # is) w =
     (case attempt L E i w of
        (w', Some e) \<Rightarrow> (w', Some e)
      | (w', None) \<Rightarrow> attempts L E is w')"

text \<open>\<^verbatim>\<open>sep.join(xs)\<close>\<close>

fun join_str :: "pystr \<Rightarrow> pystr list \<Rightarrow> pystr" where
  "join_str sep [] = []"
| "join_str sep [x] = x"
| "join_str sep (x # y # ys) = x @ sep @ join_str sep (y # ys)"

text \<open>
  \<^verbatim>\<open>isinstance(v, int)\<close> holds for integers and, \<^verbatim>\<open>bool\<close> being a subclass of \<^verbatim>\<open>int\<close>,
  for booleans; \<open>int_value\<close> is \<^verbatim>\<open>int(v)\<close> on such a value.
\<close>

fun isinstance_int :: "pyval \<Rightarrow> bool" where
  "isinstance_int (PInt i) = True"
| "isinstance_int (PBool b) = True"
| "isinstance_int v = False"

fun int_value :: "pyval \<Rightarrow> int" where
  "int_value (PInt i) = i"
| "int_value (PBool b) = (if b then 1 else 0)"
| "int_value v = 0"

text \<open>
  \<^verbatim>\<open>sum(int(r["topup_amount"]) for r in results if isinstance(r.get("topup_amount"), int))\<close>
\<close>

definition total_amount :: "(pystr \<times> pyval) list list \<Rightarrow> int" where
  "total_amount rs =
     sum_list (map (\<lambda>r. int_value (dict_get r (str ''topup_amount'')))
                   (filter (\<lambda>r. isinstance_int (dict_get r (str ''topup_amount''))) rs))"

text \<open>\<^verbatim>\<open>any((r.get("topup_ok") or r.get("code")) for r in results)\<close>\<close>

definition has_success :: "(pystr \<times> pyval) list list \<Rightarrow> bool" where
  "has_success rs =
     list_ex (\<lambda>r. truthy (py_or (dict_get r (str ''topup_ok'')) (dict_get r (str ''code'')))) rs"

text \<open>
  \<^verbatim>\<open>html.escape\<close> replaces five characters; it is a method call on its argument, which only
  a string supports.
\<close>

definition escape_char :: "nat \<Rightarrow> pystr" where
  \<open>escape_char c =
     (if c = 38 then str ''&amp;'' else if c = 60 then str ''&lt;''
      else if c = 62 then str ''&gt;'' else if c = 34 then str ''&quot;''
      else if c = 39 then str ''&#x27;'' else [c])\<close>

fun html_escape :: "pyval \<Rightarrow> exn + pystr" where
  "html_escape (PStr s) = Inr (concat (map escape_char s))"
| "html_escape v = Inl AttributeError"

text \<open>\<^verbatim>\<open>d[k]\<close>\<close>

definition dict_index :: "(pystr \<times> pyval) list \<Rightarrow> pystr \<Rightarrow> exn + pyval" where
  "dict_index kvs k = (case map_of kvs k of Some v \<Rightarrow> Inr v | None \<Rightarrow> Inl KeyError)"

definition mark_ok :: pystr where "mark_ok = [0x2705]"

definition mark_failed :: pystr where "mark_failed = [0x274C]"

text \<open>One row of the table of \<^verbatim>\<open>render_html\<close>; \<open>i\<close> counts from 1.\<close>

definition render_row :: "pylib \<Rightarrow> nat \<Rightarrow> (pystr \<times> pyval) list \<Rightarrow> exn + pystr" where
  "render_row L i it =
     bind_exn (dict_index it (str ''draw_msg'')) (\<lambda>draw_msg.
     bind_exn (html_escape draw_msg) (\<lambda>c2.
     bind_exn (dict_index it (str ''code_mask'')) (\<lambda>code_mask.
     bind_exn (html_escape code_mask) (\<lambda>c3.
     bind_exn (dict_index it (str ''topup_ok'')) (\<lambda>topup_ok.
     bind_exn (html_escape (case map_of it (str ''topup_msg'') of
                              Some v \<Rightarrow> v | None \<Rightarrow> PStr [])) (\<lambda>c6.
     Inr (str ''<tr><td>'' @ show_int (int i) @ str ''</td><td>'' @ c2 @
          str ''</td><td>'' @ c3 @ str ''</td><td>'' @
          (if truthy topup_ok then mark_ok else mark_failed) @ str ''</td><td>'' @
          py_format L (case map_of it (str ''topup_amount'') of
                         Some v \<Rightarrow> v | None \<Rightarrow> PStr []) @
          str ''</td><td>'' @ c6 @ str ''</td></tr>'')))))))"

fun render_rows :: "pylib \<Rightarrow> nat \<Rightarrow> (pystr \<times> pyval) list list \<Rightarrow> exn + pystr list" where
  "render_rows L i [] = Inr []"
| "render_rows L i (it # items) =
     bind_exn (render_row L i it) (\<lambda>row.
     bind_exn (render_rows L (Suc i) items) (\<lambda>rows. Inr (row # rows)))"

text \<open>
  The page that \<^verbatim>\<open>render_html\<close> returns is a fixed template with three values filled in:
  the escaped date (twice), the total amount and the table. The page is modelled by these
  three values.
\<close>

record page =
  page_date :: pystr
  page_total :: int
  page_table :: pystr

definition render_html ::
  "pylib \<Rightarrow> pystr \<Rightarrow> (pystr \<times> pyval) list list \<Rightarrow> int \<Rightarrow> exn + page" where
  "render_html L report_date items tot =
     bind_exn (render_rows L 1 items) (\<lambda>rows.
     bind_exn (html_escape (PStr report_date)) (\<lambda>d.
     Inr \<lparr>page_date = d, page_total = tot, page_table = join_str [10] rows\<rparr>))"

text \<open>
  What became of the notification: \<^verbatim>\<open>main\<close> did not call \<^verbatim>\<open>send_push\<close>; \<^verbatim>\<open>send_push\<close>
  returned without a request because the URL or the token is empty; or the title and the
  content were posted, with the \<^verbatim>\<open>ok\<close> that \<^verbatim>\<open>send_push\<close> returned.
\<close>

datatype push_action = No_push | Push_unconfigured | Push_posted pystr pystr bool

definition send_push :: "env \<Rightarrow> pystr \<Rightarrow> pystr \<Rightarrow> push_action" where
  "send_push E title content =
     (if PUSH_URL E = [] \<or> PUSH_TOKEN E = [] then Push_unconfigured
      else Push_posted title content
             (case push_reply E of
                Raised e \<Rightarrow> False
              | Replied r \<Rightarrow> 200 \<le> status_code r \<and> status_code r < 300))"

text \<open>One line of the notification; \<open>i\<close> counts from 0.\<close>

definition push_line :: "pylib \<Rightarrow> nat \<Rightarrow> (pystr \<times> pyval) list \<Rightarrow> exn + pystr" where
  "push_line L i r =
     bind_exn (dict_index r (str ''topup_ok'')) (\<lambda>topup_ok.
     bind_exn (dict_index r (str ''code_mask'')) (\<lambda>code_mask.
     Inr (str ''- '' @ [0x7B2C] @ show_int (int i + 1) @ [0x6B21, 0xFF1A] @
          (if truthy topup_ok then mark_ok else mark_failed) @ str '' '' @
          py_format L code_mask @ str '' '' @ [0x989D] @ str '':'' @
          py_format L (case map_of r (str ''topup_amount'') of
                         Some v \<Rightarrow> v | None \<Rightarrow> PStr []) @
          str ''  '' @
          py_format L (py_or (case map_of r (str ''topup_msg'') of
                                Some v \<Rightarrow> v | None \<Rightarrow> PStr [])
                             (case map_of r (str ''draw_msg'') of
                                Some v \<Rightarrow> v | None \<Rightarrow> PStr [])))))"

fun push_lines :: "pylib \<Rightarrow> nat \<Rightarrow> (pystr \<times> pyval) list list \<Rightarrow> exn + pystr list" where
  "push_lines L i [] = Inr []"
| "push_lines L i (r # rs) =
     bind_exn (push_line L i r) (\<lambda>line.
     bind_exn (push_lines L (Suc i) rs) (\<lambda>lines. Inr (line # lines)))"

definition push_title :: "pystr \<Rightarrow> pystr" where
  "push_title today_str =
     [0x7B7E, 0x5230, 0x5151, 0x6362, 0x5B8C, 0x6210, 0xFF08] @ today_str @ [0xFF09]"

definition push_content :: "int \<Rightarrow> pystr list \<Rightarrow> pystr" where
  "push_content tot lines =
     str ''**'' @ [0x603B, 0x989D] @ str ''**'' @ [0xFF1A] @ str ''`'' @ show_int tot @
     str ''`'' @ [10, 10] @ join_str [10] lines"

text \<open>
  The result of a run: the world at its end, the text written to \<^verbatim>\<open>dist/summary.json\<close>,
  the page written to \<^verbatim>\<open>dist/index.html\<close>, the notification, and the exception that ended
  the run, if one did.
\<close>

record outcome =
  final :: world
  report_json :: "pystr option"
  report_html :: "page option"
  push :: push_action
  raised :: "exn option"

definition aborted :: "world \<Rightarrow> exn \<Rightarrow> outcome" where
  "aborted w e =
     \<lparr>final = w, report_json = None, report_html = None, push = No_push, raised = Some e\<rparr>"

text \<open>The names of the required environment variables that are empty.\<close>

definition missing_env :: "env \<Rightarrow> pystr list" where
  "missing_env E =
     (if LUCKYDRAW_COOKIE E = [] then [str ''LUCKYDRAW_COOKIE''] else []) @
     (if LUCKYDRAW_NEXT_ACTION E = [] then [str ''LUCKYDRAW_NEXT_ACTION''] else []) @
     (if LUCKYDRAW_NEXT_ROUTER_STATE E = [] then [str ''LUCKYDRAW_NEXT_ROUTER_STATE''] else []) @
     (if TOPUP_COOKIE E = [] then [str ''TOPUP_COOKIE''] else []) @
     (if TOPUP_NEW_API_USER E = [] then [str ''TOPUP_NEW_API_USER''] else [])"

definition msg_missing_env :: pystr where
  "msg_missing_env = [0x7F3A, 0x5C11, 0x5FC5, 0x8981, 0x73AF, 0x5883, 0x53D8, 0x91CF, 0xFF1A]"

text \<open>The dictionary that \<^verbatim>\<open>main\<close> passes to \<^verbatim>\<open>json.dumps\<close>.\<close>

definition summary :: "env \<Rightarrow> int \<Rightarrow> world \<Rightarrow> int \<Rightarrow> int \<Rightarrow> pyval" where
  "summary E tot w tried target =
     PDict [(str ''date'', PStr (now_text E)),
            (str ''timezone'', PStr (str ''Asia/Singapore'')),
            (str ''total_amount'', PInt tot),
            (str ''items'', PList (map PDict (results w))),
            (str ''today_tried'', PInt tried),
            (str ''today_target'', PInt target)]"

text \<open>\<^verbatim>\<open>main\<close> after the loop.\<close>

definition finish :: "pylib \<Rightarrow> env \<Rightarrow> int \<Rightarrow> world \<Rightarrow> outcome" where
  "finish L E target w =
     (let tot = total_amount (results w)
      in case get_today_counts L (today_key E) (state w) of
           Inl e \<Rightarrow> aborted w e
         | Inr tried \<Rightarrow>
             let js = json_dumps L (summary E tot w tried target)
             in case render_html L (now_text E) (results w) tot of
                  Inl e \<Rightarrow> \<lparr>final = w, report_json = Some js, report_html = None,
                            push = No_push, raised = Some e\<rparr>
                | Inr pg \<Rightarrow>
                    if results w = [] \<or> \<not> has_success (results w) then
                      \<lparr>final = w, report_json = Some js, report_html = Some pg,
                       push = No_push, raised = None\<rparr>
                    else
                      (case push_lines L 0 (results w) of
                         Inl e \<Rightarrow> \<lparr>final = w, report_json = Some js, report_html = Some pg,
                                   push = No_push, raised = Some e\<rparr>
                       | Inr lines \<Rightarrow>
                           \<lparr>final = w, report_json = Some js, report_html = Some pg,
                            push = send_push E (push_title (now_text E))
                                     (push_content tot lines),
                            raised = None\<rparr>))"

definition main :: "pylib \<Rightarrow> env \<Rightarrow> outcome" where
  "main L E =
     (let st = load_state L (state_file E);
          w = \<lparr>state = st, disk = state_file E, draws = 0, redeemed = [], results = []\<rparr>
      in if missing_env E \<noteq> [] then
           aborted w (SystemExit (msg_missing_env @ join_str (str '', '') (missing_env E)))
         else
           case get_today_counts L (today_key E) st of
             Inl e \<Rightarrow> aborted w e
           | Inr already \<Rightarrow>
               let target = min (MAX_TIMES E) 5;
                   need = max 0 (target - already)
               in case attempts L E [0..<nat need] w of
                    (w, Some e) \<Rightarrow> aborted w e
                  | (w, None) \<Rightarrow> finish L E target w)"

section \<open>Notions of the specification and example inputs\<close>

text \<open>
  The field that the specification speaks of: the key \<^verbatim>\<open>"redemptionCode"\<close>, a colon and a
  quoted value \<open>h\<close>; \<open>w1\<close> and \<open>w2\<close> are the white space around the colon, which may be
  empty. \<open>field_starts xs\<close>: the text \<open>xs\<close> begins with such a field whose value is 16 or more
  hexadecimal digits. \<open>none_before pre ys\<close>: in the text \<open>pre @ ys\<close>, no such field begins at
  a position inside \<open>pre\<close>.
\<close>

definition code_field :: "pystr \<Rightarrow> pystr \<Rightarrow> pystr \<Rightarrow> pystr" where
  \<open>code_field w1 w2 h =
     str ''"redemptionCode"'' @ w1 @ str '':'' @ w2 @ str ''"'' @ h @ str ''"''\<close>

definition field_starts :: "pystr \<Rightarrow> bool" where
  "field_starts xs \<longleftrightarrow>
     (\<exists>w1 w2 h post. xs = code_field w1 w2 h @ post \<and> list_all is_space w1 \<and>
        list_all is_space w2 \<and> list_all is_hex h \<and> 16 \<le> length h)"

fun none_before :: "pystr \<Rightarrow> pystr \<Rightarrow> bool" where
  "none_before [] ys = True"
| "none_before (x # pre) ys = (\<not> field_starts (x # pre @ ys) \<and> none_before pre ys)"

text \<open>
  Library functions for the examples: \<open>lib0\<close> has a \<^verbatim>\<open>json.loads\<close> that rejects every text;
  \<open>scenario_lib\<close> parses the two fragments of the scenario body as \<^verbatim>\<open>json.loads\<close> does.
  \<open>status_response st body\<close> is a response with status \<open>st\<close> whose body is \<open>body\<close> in both
  readings.
\<close>

definition lib0 :: pylib where
  "lib0 =
     \<lparr>json_loads = (\<lambda>t. None),
      json_dumps = (\<lambda>v. []),
      json_error = (\<lambda>t. []),
      charref_sub = (\<lambda>s. s),
      int_of_str = (\<lambda>s. None),
      py_repr = (\<lambda>v. [])\<rparr>"

definition status_response :: "int \<Rightarrow> pystr \<Rightarrow> response" where
  "status_response st body = \<lparr>status_code = st, body_text = body, content_utf8 = body\<rparr>"

text \<open>
  The draw response body of the interpreter scenario of the specification, and its two
  fragments.
\<close>

definition scenario_body :: pystr where
  \<open>scenario_body =
     str ''garbage{"message":"try later"}moregarbage{"redemptionCode":"0123456789abcdef","message":"win"}''\<close>

definition scenario_first :: pystr where
  \<open>scenario_first = str ''{"message":"try later"}''\<close>

definition scenario_last :: pystr where
  \<open>scenario_last = str ''{"redemptionCode":"0123456789abcdef","message":"win"}''\<close>

definition scenario_lib :: pylib where
  "scenario_lib =
     \<lparr>json_loads = map_of
        [(scenario_first, PDict [(str ''message'', PStr (str ''try later''))]),
         (scenario_last, PDict [(str ''redemptionCode'', PStr (str ''0123456789abcdef'')),
                                (str ''message'', PStr (str ''win''))])],
      json_dumps = (\<lambda>v. []),
      json_error = (\<lambda>t. []),
      charref_sub = (\<lambda>s. s),
      int_of_str = (\<lambda>s. None),
      py_repr = (\<lambda>v. [])\<rparr>"

text \<open>A body with two code fields, and a body with the challenge marker after 200 spaces.\<close>

definition two_fields_body :: pystr where
  \<open>two_fields_body =
     str ''garbage{"redemptionCode":"0123456789abcdef"}{"redemptionCode":"fedcba9876543210"}''\<close>

definition late_marker_body :: pystr where
  "late_marker_body = replicate 200 32 @ str ''Just a moment''"


definition failure_record :: "pystr \<Rightarrow> pystr \<Rightarrow> (pystr \<times> pyval) list" where
  "failure_record m t =
     [(str ''draw_msg'', PStr m), (str ''code'', PStr []), (str ''code_mask'', PStr []),
      (str ''topup_ok'', PBool False), (str ''topup_amount'', PStr []),
      (str ''topup_msg'', PStr t)]"

text \<open>The state dictionary that holds \<open>n\<close> tries for one day and nothing else.\<close>

definition day_state :: "pystr \<Rightarrow> int \<Rightarrow> pyval" where
  "day_state today n = PDict [(str ''days'', PDict [(today, PDict [(str ''tries'', PInt n)])])]"

text \<open>
  The end-to-end scenario of the specification: three attempts made today, a daily maximum
  \<open>max_times\<close>; the first draw is answered with status 401, every later one with a code; the
  top-up endpoint answers with \<open>topup_body\<close>. \<open>e2e_lib\<close> parses the texts of the scenario as
  \<^verbatim>\<open>json.loads\<close> does, and serialises with \<open>dumps\<close>; \<open>e2e_dumps\<close> is a serialiser that
  writes the final state of the scenario as the text that \<open>e2e_lib\<close> parses back.
  \<open>e2e_records amount\<close> are the two records that the run builds when the top-up response
  carries \<open>amount\<close> as its data.
\<close>

definition e2e_state_text :: pystr where
  \<open>e2e_state_text = str ''{"days":{"2026-01-01":{"tries":3}}}''\<close>

definition e2e_state5_text :: pystr where
  \<open>e2e_state5_text = str ''{"days":{"2026-01-01":{"tries":5}}}''\<close>

definition e2e_draw_body :: pystr where
  \<open>e2e_draw_body = str ''1:{"redemptionCode":"abcdef1234567890"}''\<close>

definition e2e_fragment :: pystr where
  \<open>e2e_fragment = str ''{"redemptionCode":"abcdef1234567890"}''\<close>

definition e2e_topup_body :: pystr where
  \<open>e2e_topup_body = str ''{"success":true,"data":100,"message":"ok"}''\<close>

definition bool_topup_body :: pystr where
  \<open>bool_topup_body = str ''{"success":true,"data":true,"message":"ok"}''\<close>

definition e2e_lib :: "(pyval \<Rightarrow> pystr) \<Rightarrow> pylib" where
  "e2e_lib dumps =
     \<lparr>json_loads = map_of
        [(e2e_state_text, day_state (str ''2026-01-01'') 3),
         (e2e_state5_text, day_state (str ''2026-01-01'') 5),
         (e2e_fragment, PDict [(str ''redemptionCode'', PStr (str ''abcdef1234567890''))]),
         (e2e_topup_body, PDict [(str ''success'', PBool True), (str ''data'', PInt 100),
                                 (str ''message'', PStr (str ''ok''))]),
         (bool_topup_body, PDict [(str ''success'', PBool True), (str ''data'', PBool True),
                                  (str ''message'', PStr (str ''ok''))])],
      json_dumps = dumps,
      json_error = (\<lambda>t. []),
      charref_sub = (\<lambda>s. s),
      int_of_str = (\<lambda>s. None),
      py_repr = (\<lambda>v. [])\<rparr>"


definition e2e_env :: "int \<Rightarrow> pystr \<Rightarrow> pystr \<Rightarrow> env" where
  "e2e_env max_times token topup_body =
     \<lparr>LUCKYDRAW_COOKIE = str ''session=1'',
      LUCKYDRAW_NEXT_ACTION = str ''a'',
      LUCKYDRAW_NEXT_ROUTER_STATE = str ''r'',
      TOPUP_COOKIE = str ''session=2'',
      TOPUP_NEW_API_USER = str ''1'',
      MAX_TIMES = max_times,
      PUSH_URL = str ''https://www.pushplus.plus/api/send'',
      PUSH_TOKEN = token,
      today_key = str ''2026-01-01'',
      now_text = str ''2026-01-01 08:00:00'',
      state_file = Some e2e_state_text,
      draw_reply = (\<lambda>i. if i = 0 then Replied (status_response 401 [])
                         else Replied (status_response 200 e2e_draw_body)),
      topup_reply = (\<lambda>i code. Replied (status_response 200 topup_body)),
      push_reply = Replied (status_response 200 [])\<rparr>"

definition e2e_records :: "pyval \<Rightarrow> (pystr \<times> pyval) list list" where
  "e2e_records amount =
     [[(str ''draw_msg'', PStr msg_401), (str ''code'', PStr []), (str ''code_mask'', PStr []),
       (str ''topup_ok'', PBool False), (str ''topup_amount'', PStr []),
       (str ''topup_msg'', PStr (msg_no_code @ [0xFF08] @ msg_401 @ [0xFF09]))],
      [(str ''draw_msg'', PStr (str ''HTTP 200'')),
       (str ''code'', PStr (str ''abcdef1234567890'')),
       (str ''code_mask'', PStr (str ''abcd****7890'')),
       (str ''topup_ok'', PBool True), (str ''topup_amount'', amount),
       (str ''topup_msg'', PStr (str ''ok''))]]"



section \<open>Properties of \<^verbatim>\<open>mask_code\<close>\<close>

lemma drop_tail_of_middle:
  "8 \<le> length (code::pystr) \<Longrightarrow>
   drop 4 code = take (length code - 8) (drop 4 code) @ drop (length code - 4) code"
  using append_take_drop_id [of "length code - 8" "drop 4 code"] by simp

lemma code_three_parts:
  "8 \<le> length (code::pystr) \<Longrightarrow>
   code = take 4 code @ take (length code - 8) (drop 4 code) @ drop (length code - 4) code"
  using drop_tail_of_middle [of code] append_take_drop_id [of 4 code] by simp

lemma mask_code_long:
  "8 \<le> length code \<Longrightarrow>
   mask_code code = take 4 code @ str ''****'' @ drop (length code - 4) code"
  by (simp add: mask_code_def)

text \<open>
  Claim C7. A code of fewer than 8 characters, the empty one included, is masked as the fixed
  placeholder \<^verbatim>\<open>****\<close>. A code of 8 characters or more splits into its first four
  characters, a middle part and its last four characters, and its mask is the first four,
  the fixed string \<^verbatim>\<open>****\<close> in place of the middle part, and the last four.
\<close>

theorem mask_code_spec:
  "(length code < 8 \<longrightarrow> mask_code code = str ''****'') \<and>
   (8 \<le> length code \<longrightarrow>
      (\<exists>pre mid suf. code = pre @ mid @ suf \<and> length pre = 4 \<and> length suf = 4 \<and>
         mask_code code = pre @ str ''****'' @ suf))"
proof (intro conjI impI)
  assume "length code < 8"
  then show "mask_code code = str ''****''"
    by (simp add: mask_code_def)
next
  assume len: "8 \<le> length code"
  show "\<exists>pre mid suf. code = pre @ mid @ suf \<and> length pre = 4 \<and> length suf = 4 \<and>
         mask_code code = pre @ str ''****'' @ suf"
  proof (intro exI conjI)
    show "code = take 4 code @ take (length code - 8) (drop 4 code) @ drop (length code - 4) code"
      using len by (rule code_three_parts)
    show "length (take 4 code) = 4" using len by simp
    show "length (drop (length code - 4) code) = 4" using len by simp
    show "mask_code code = take 4 code @ str ''****'' @ drop (length code - 4) code"
      using len by (rule mask_code_long)
  qed
qed

lemma split_at_4:
  assumes "(c::pystr) = pre @ rest" and "length pre = 4"
  shows "pre = take 4 c"
  using assms by simp

lemma split_last_4:
  assumes "(c::pystr) = front @ suf" and "length suf = 4"
  shows "suf = drop (length c - 4) c"
  using assms by simp

theorem mask_code_spec_witness:
  "length ([] :: pystr) < 8 \<and> mask_code [] = str ''****'' \<and>
   8 \<le> length (str ''abcdef1234567890'') \<and>
   mask_code (str ''abcdef1234567890'') = str ''abcd****7890''"
proof -
  define c where "c = str ''abcdef1234567890''"
  have l: "length c = 16" by (simp add: c_def str_def)
  from mask_code_spec [of "[]"] have e: "mask_code [] = str ''****''" by simp
  from mask_code_spec [of c] l obtain pre mid suf where
    c: "c = pre @ mid @ suf" and p: "length pre = 4" and s: "length suf = 4"
    and m: "mask_code c = pre @ str ''****'' @ suf"
    by auto
  have pre: "pre = take 4 c" using c p by (rule split_at_4)
  have "c = (pre @ mid) @ suf" using c by simp
  then have suf: "suf = drop (length c - 4) c" using s by (rule split_last_4)
  have "take 4 c = str ''abcd''" "drop (length c - 4) c = str ''7890''"
    by (simp_all add: c_def str_def)
  with m pre suf have "mask_code c = str ''abcd'' @ str ''****'' @ str ''7890''"
    by simp
  then have "mask_code c = str ''abcd****7890''"
    by (simp add: str_def)
  with e l show ?thesis by (simp add: c_def)
qed

section \<open>The backtracking matcher on the code pattern\<close>

lemma alts_seq_Lit:
  "alts_seq (Lit p # as) xs =
     (if take (length p) xs = p then alts_seq as (drop (length p) xs) else [])"
  by (simp add: case_prod_unfold)

lemma concat_map_empty:
  assumes "\<And>n. n \<in> set ns \<Longrightarrow> f n = []"
  shows "concat (map f ns) = []"
  using assms by (induction ns) auto

lemma longest_first:
  assumes "\<And>n. n < k \<Longrightarrow> f n = []"
  shows "concat (map f (rev [m..<Suc k])) = (if m \<le> k then f k else [])"
proof (cases "m \<le> k")
  case True
  then have "rev [m..<Suc k] = k # rev [m..<k]" by simp
  moreover have "concat (map f (rev [m..<k])) = []"
    using assms by (intro concat_map_empty) auto
  ultimately show ?thesis using True by simp
next
  case False
  then show ?thesis by simp
qed

lemma inside_run:
  assumes "n < length (takeWhile P xs)"
  shows "\<exists>y ys. drop n xs = y # ys \<and> P y"
proof -
  have n: "n < length xs"
    using assms length_takeWhile_le [of P xs] by simp
  have "takeWhile P xs ! n = xs ! n"
    using assms by (rule takeWhile_nth)
  moreover have "P (takeWhile P xs ! n)"
    using assms nth_mem set_takeWhileD by metis
  ultimately have "P (xs ! n)" by simp
  moreover have "drop n xs = xs ! n # drop (Suc n) xs"
    using n by (simp add: Cons_nth_drop_Suc)
  ultimately show ?thesis by blast
qed

lemma lit_fails_inside_run:
  assumes "\<not> P c" and "n < length (takeWhile P xs)"
  shows "alts_seq (Lit (c # p) # as) (drop n xs) = []"
proof -
  from inside_run [OF assms(2)] obtain y ys where d: "drop n xs = y # ys" and "P y"
    by blast
  with assms(1) have "y \<noteq> c" by auto
  with d show ?thesis by (simp add: alts_seq_Lit)
qed

lemma alts_seq_Greedy:
  "alts_seq (Greedy m P # as) xs =
     concat (map (\<lambda>n. alts_seq as (drop n xs)) (rev [m..<Suc (length (takeWhile P xs))]))"
  by (simp add: comp_def case_prod_unfold del: upt_Suc)

lemma take_consumed: "take (length xs - length (drop n xs)) xs = take n xs"
  by (cases "n \<le> length xs") simp_all

lemma alts_seq_Cap_Greedy:
  "alts_seq (Cap (Greedy m P) # as) xs =
     concat (map (\<lambda>n. map (\<lambda>(r, gs). (r, take n xs # gs)) (alts_seq as (drop n xs)))
                 (rev [m..<Suc (length (takeWhile P xs))]))"
  by (simp add: comp_def case_prod_unfold take_consumed del: upt_Suc length_drop)

lemma alts_seq_Greedy_Lit:
  assumes "\<not> P c"
  shows "alts_seq (Greedy m P # Lit (c # p) # as) xs =
           (if m \<le> length (takeWhile P xs)
            then alts_seq (Lit (c # p) # as) (dropWhile P xs) else [])"
proof -
  let ?k = "length (takeWhile P xs)"
  let ?f = "\<lambda>n. alts_seq (Lit (c # p) # as) (drop n xs)"
  have "alts_seq (Greedy m P # Lit (c # p) # as) xs = concat (map ?f (rev [m..<Suc ?k]))"
    by (rule alts_seq_Greedy)
  also have "\<dots> = (if m \<le> ?k then ?f ?k else [])"
    using assms by (intro longest_first lit_fails_inside_run)
  finally show ?thesis by (simp only: dropWhile_eq_drop)
qed

lemma alts_seq_Cap_Greedy_Lit:
  assumes "\<not> P c"
  shows "alts_seq (Cap (Greedy m P) # Lit (c # p) # as) xs =
           (if m \<le> length (takeWhile P xs)
            then map (\<lambda>(r, gs). (r, takeWhile P xs # gs))
                     (alts_seq (Lit (c # p) # as) (dropWhile P xs))
            else [])"
proof -
  let ?k = "length (takeWhile P xs)"
  let ?f = "\<lambda>n. map (\<lambda>(r, gs). (r, take n xs # gs))
                  (alts_seq (Lit (c # p) # as) (drop n xs))"
  have "alts_seq (Cap (Greedy m P) # Lit (c # p) # as) xs =
          concat (map ?f (rev [m..<Suc ?k]))"
    by (rule alts_seq_Cap_Greedy)
  also have "\<dots> = (if m \<le> ?k then ?f ?k else [])"
  proof (rule longest_first)
    fix n assume "n < ?k"
    with assms have "alts_seq (Lit (c # p) # as) (drop n xs) = []"
      by (rule lit_fails_inside_run)
    then show "?f n = []" by simp
  qed
  finally show ?thesis
    by (simp only: dropWhile_eq_drop takeWhile_eq_take [symmetric])
qed

lemma not_space_colon: "\<not> is_space 58"
  by (simp add: is_space_def)
lemma not_space_quote: "\<not> is_space 34"
  by (simp add: is_space_def)
lemma not_hex_quote: "\<not> is_hex 34"
  by (simp add: is_hex_def)

lemma alts_seq_key_value:
  "alts_seq [Lit key, Greedy 0 is_space, Lit [58], Greedy 0 is_space, Lit [34],
             Cap (Greedy 16 is_hex), Lit [34]] xs =
     (let r1 = dropWhile is_space (drop (length key) xs);
          r2 = dropWhile is_space (drop (Suc 0) r1);
          r3 = drop (Suc 0) r2;
          h = takeWhile is_hex r3;
          r4 = dropWhile is_hex r3
      in if take (length key) xs = key \<and> take (Suc 0) r1 = [58] \<and> take (Suc 0) r2 = [34] \<and>
            16 \<le> length h \<and> take (Suc 0) r4 = [34]
         then [(drop (Suc 0) r4, [h])] else [])"
  by (simp add: alts_seq_Lit alts_seq_Greedy_Lit alts_seq_Cap_Greedy_Lit
        not_space_colon not_space_quote not_hex_quote Let_def
      del: alts_seq.simps(2))

lemma pat_code_shape:
  \<open>pat_code = [Lit (str ''"redemptionCode"''), Greedy 0 is_space, Lit [58], Greedy 0 is_space,
               Lit [34], Cap (Greedy 16 is_hex), Lit [34]]\<close>
  by (simp add: pat_code_def str_def)

lemma alts_seq_pat_code:
  \<open>alts_seq pat_code xs =
     (let r1 = dropWhile is_space (drop (length (str ''"redemptionCode"'')) xs);
          r2 = dropWhile is_space (drop (Suc 0) r1);
          r3 = drop (Suc 0) r2;
          h = takeWhile is_hex r3;
          r4 = dropWhile is_hex r3
      in if take (length (str ''"redemptionCode"'')) xs = str ''"redemptionCode"'' \<and>
            take (Suc 0) r1 = [58] \<and> take (Suc 0) r2 = [34] \<and>
            16 \<le> length h \<and> take (Suc 0) r4 = [34]
         then [(drop (Suc 0) r4, [h])] else [])\<close>
  unfolding pat_code_shape by (rule alts_seq_key_value)

lemma dropWhile_run:
  assumes "list_all P ws" and "\<not> P c"
  shows "dropWhile P (ws @ c # rest) = c # rest"
  using assms by (induction ws) auto

lemma takeWhile_run:
  assumes "list_all P ws" and "\<not> P c"
  shows "takeWhile P (ws @ c # rest) = ws"
  using assms by (induction ws) auto

lemma match_code_field:
  assumes "list_all is_space w1" and "list_all is_space w2"
    and "list_all is_hex h" and "16 \<le> length h"
  shows "alts_seq pat_code (code_field w1 w2 h @ post) = [(post, [h])]"
proof -
  have s: "str '':'' = [58]" \<open>str ''"'' = [34]\<close>
    by (simp_all add: str_def)
  show ?thesis
    using assms
    by (simp add: alts_seq_pat_code code_field_def s dropWhile_run takeWhile_run
          not_space_colon not_space_quote not_hex_quote)
qed

lemma head_split: "take (Suc 0) xs = [c] \<Longrightarrow> xs = c # drop (Suc 0) xs"
  by (cases xs) auto

lemma match_code_shape:
  assumes "alts_seq pat_code xs \<noteq> []"
  shows "field_starts xs"
proof -
  define key where \<open>key = str ''"redemptionCode"''\<close>
  define d0 where "d0 = drop (length key) xs"
  define w1 where "w1 = takeWhile is_space d0"
  define r1 where "r1 = dropWhile is_space d0"
  define d1 where "d1 = drop (Suc 0) r1"
  define w2 where "w2 = takeWhile is_space d1"
  define r2 where "r2 = dropWhile is_space d1"
  define r3 where "r3 = drop (Suc 0) r2"
  define h where "h = takeWhile is_hex r3"
  define r4 where "r4 = dropWhile is_hex r3"
  from assms have c: "take (length key) xs = key" "take (Suc 0) r1 = [58]"
    "take (Suc 0) r2 = [34]" "16 \<le> length h" "take (Suc 0) r4 = [34]"
    unfolding key_def d0_def r1_def d1_def r2_def r3_def h_def r4_def
    by (simp_all add: alts_seq_pat_code Let_def split: if_splits)
  have "xs = key @ d0"
    using c(1) append_take_drop_id [of "length key" xs] by (simp add: d0_def)
  moreover have "d0 = w1 @ r1" by (simp add: w1_def r1_def)
  moreover have "r1 = 58 # d1" using c(2) unfolding d1_def by (rule head_split)
  moreover have "d1 = w2 @ r2" by (simp add: w2_def r2_def)
  moreover have "r2 = 34 # r3" using c(3) unfolding r3_def by (rule head_split)
  moreover have "r3 = h @ r4" by (simp add: h_def r4_def)
  moreover have "r4 = 34 # drop (Suc 0) r4" using c(5) by (rule head_split)
  ultimately have "xs = key @ w1 @ 58 # w2 @ 34 # h @ 34 # drop (Suc 0) r4"
    by simp
  then have "xs = code_field w1 w2 h @ drop (Suc 0) r4"
    by (simp add: code_field_def key_def str_def)
  moreover have "list_all is_space w1" "list_all is_space w2" "list_all is_hex h"
    by (auto simp: w1_def w2_def h_def list_all_iff dest: set_takeWhileD)
  ultimately show ?thesis
    using c(4) unfolding field_starts_def by blast
qed

lemma field_starts_iff: "field_starts xs \<longleftrightarrow> alts_seq pat_code xs \<noteq> []"
proof
  assume "field_starts xs"
  then show "alts_seq pat_code xs \<noteq> []"
    unfolding field_starts_def by (auto simp: match_code_field)
next
  assume "alts_seq pat_code xs \<noteq> []"
  then show "field_starts xs" by (rule match_code_shape)
qed

lemma re_search_skip:
  assumes "none_before pre ys"
  shows "re_search pat_code (pre @ ys) = re_search pat_code ys"
  using assms by (induction pre) (simp_all add: field_starts_iff)

lemma re_search_hit:
  assumes "alts_seq pat ys = [(r, gs)]"
  shows "re_search pat ys = Some gs"
  using assms by (cases ys) simp_all

lemma re_search_leftmost_field:
  assumes "list_all is_space w1" and "list_all is_space w2"
    and "list_all is_hex h" and "16 \<le> length h"
    and "none_before pre (code_field w1 w2 h @ post)"
  shows "re_search pat_code (pre @ code_field w1 w2 h @ post) = Some [h]"
  using assms by (simp add: re_search_skip re_search_hit match_code_field)

section \<open>The response interpreter\<close>

lemma interpret_code_found:
  assumes "re_search pat_code txt = Some [h]" and "h \<noteq> []"
  shows "fst (interpret_response L st txt) = PStr h"
  using assms by (simp add: interpret_response_def group1_def Let_def split: pyval.split)

lemma interpret_msg_found:
  assumes "re_search pat_message txt = Some [g]" and "html_unescape L g \<noteq> []"
  shows "fst (snd (interpret_response L st txt)) = PStr (html_unescape L g)"
  using assms by (simp add: interpret_response_def group1_def Let_def split: pyval.split)

lemma interpret_parsed:
  "snd (snd (interpret_response L st txt)) = first_loads L (rev (re_findall pat_object txt))"
  by (simp add: interpret_response_def Let_def)

lemma luckydraw_delegates:
  assumes "status_code r \<noteq> 401" and "status_code r \<noteq> 403" and "status_code r < 500"
  shows "luckydraw_once L (Replied r) = interpret_response L (status_code r) (content_utf8 r)"
  using assms by (simp add: luckydraw_once_def)

lemma scenario_code: "re_search pat_code scenario_body = Some [str ''0123456789abcdef'']"
  by (simp add: scenario_body_def str_def pat_code_def is_space_def is_hex_def)

lemma scenario_message: "re_search pat_message scenario_body = Some [str ''try later'']"
  by (simp add: scenario_body_def str_def pat_message_def is_space_def not_newline_def)

lemma scenario_fragments: "re_findall pat_object scenario_body = [scenario_first, scenario_last]"
  by (simp add: scenario_body_def scenario_first_def scenario_last_def str_def pat_object_def
        any_char_def re_findall.simps)

lemma prod3_eqI: "fst p = a \<Longrightarrow> fst (snd p) = b \<Longrightarrow> snd (snd p) = c \<Longrightarrow> p = (a, b, c)"
  by (cases p) auto

text \<open>
  Claim C1, as amended. For the scenario body and a status that is not 401, not 403 and below
  500, \<^verbatim>\<open>luckydraw_once\<close> returns the code \<^verbatim>\<open>0123456789abcdef\<close> and the message
  \<^verbatim>\<open>try later\<close>: the message is the first match of the message pattern in the text. The
  last fragment that parses is returned as the third component only; its message would be
  used only if the pattern had matched nowhere.
\<close>

theorem scenario_first_message_wins:
  assumes "status_code r \<noteq> 401" and "status_code r \<noteq> 403" and "status_code r < 500"
    and "content_utf8 r = scenario_body"
  shows "luckydraw_once L (Replied r) =
           (PStr (str ''0123456789abcdef''), PStr (str ''try later''),
            first_loads L [scenario_last, scenario_first])"
proof -
  have u: "html_unescape L (str ''try later'') = str ''try later''"
    by (simp add: html_unescape_def str_def)
  have "fst (interpret_response L (status_code r) scenario_body) = PStr (str ''0123456789abcdef'')"
    using scenario_code by (rule interpret_code_found) (simp add: str_def)
  moreover have "fst (snd (interpret_response L (status_code r) scenario_body)) =
      PStr (str ''try later'')"
    using interpret_msg_found [OF scenario_message, of L "status_code r"] u
    by (simp add: str_def)
  moreover have "snd (snd (interpret_response L (status_code r) scenario_body)) =
      first_loads L [scenario_last, scenario_first]"
    by (simp add: interpret_parsed scenario_fragments)
  ultimately have "interpret_response L (status_code r) scenario_body =
      (PStr (str ''0123456789abcdef''), PStr (str ''try later''),
       first_loads L [scenario_last, scenario_first])"
    by (rule prod3_eqI)
  with assms show ?thesis by (simp add: luckydraw_delegates)
qed

theorem scenario_first_message_wins_witness:
  "luckydraw_once scenario_lib (Replied (status_response 200 scenario_body)) =
     (PStr (str ''0123456789abcdef''), PStr (str ''try later''),
      PDict [(str ''redemptionCode'', PStr (str ''0123456789abcdef'')),
             (str ''message'', PStr (str ''win''))])"
proof -
  have "first_loads scenario_lib [scenario_last, scenario_first] =
      PDict [(str ''redemptionCode'', PStr (str ''0123456789abcdef'')),
             (str ''message'', PStr (str ''win''))]"
    by (simp add: scenario_lib_def scenario_first_def scenario_last_def str_def)
  then show ?thesis
    using scenario_first_message_wins [of "status_response 200 scenario_body" scenario_lib]
    by (simp add: status_response_def)
qed

text \<open>
  Claim C1 as stated fails: with both fragments parsed as \<^verbatim>\<open>json.loads\<close> parses them, the
  message returned for the scenario body is not \<^verbatim>\<open>win\<close>.
\<close>

theorem scenario_message_counterexample:
  "fst (snd (luckydraw_once scenario_lib (Replied (status_response 200 scenario_body)))) \<noteq>
     PStr (str ''win'')"
proof -
  have "fst (snd (interpret_response scenario_lib 200 scenario_body)) =
      PStr (html_unescape scenario_lib (str ''try later''))"
    using scenario_message by (rule interpret_msg_found) (simp add: html_unescape_def str_def)
  then show ?thesis
    by (simp add: luckydraw_once_def status_response_def html_unescape_def str_def)
qed

text \<open>
  Claim C4, as amended. When the payload contains a field \<^verbatim>\<open>"redemptionCode":"h"\<close> with \<open>h\<close>
  of 16 or more hexadecimal digits (white space around the colon allowed), and no field of
  that shape begins further left, the code returned is exactly \<open>h\<close>, whatever text
  surrounds the field and whatever the library functions do. The status is one that
  delegates to the interpreter.
\<close>

theorem leftmost_code_field_extracted:
  assumes "list_all is_space w1" and "list_all is_space w2"
    and "list_all is_hex h" and "16 \<le> length h"
    and "none_before pre (code_field w1 w2 h @ post)"
    and "status_code r \<noteq> 401" and "status_code r \<noteq> 403" and "status_code r < 500"
    and "content_utf8 r = pre @ code_field w1 w2 h @ post"
  shows "fst (luckydraw_once L (Replied r)) = PStr h"
proof -
  have "re_search pat_code (content_utf8 r) = Some [h]"
    using assms(1-5,9) by (simp add: re_search_leftmost_field)
  moreover have "h \<noteq> []" using assms(4) by auto
  ultimately have "fst (interpret_response L (status_code r) (content_utf8 r)) = PStr h"
    by (rule interpret_code_found)
  with assms(6-8) show ?thesis by (simp add: luckydraw_delegates)
qed

theorem leftmost_code_field_extracted_witness:
  \<open>list_all is_space [] \<and> list_all is_hex (str ''0123456789abcdef'') \<and>
   16 \<le> length (str ''0123456789abcdef'') \<and>
   none_before (str ''garbage{'')
     (code_field [] [] (str ''0123456789abcdef'') @ str ''}{"redemptionCode":"fedcba9876543210"}'') \<and>
   two_fields_body =
     str ''garbage{'' @ code_field [] [] (str ''0123456789abcdef'') @
     str ''}{"redemptionCode":"fedcba9876543210"}'' \<and>
   fst (luckydraw_once lib0 (Replied (status_response 200 two_fields_body))) =
     PStr (str ''0123456789abcdef'')\<close>
proof -
  define h where "h = str ''0123456789abcdef''"
  define post where \<open>post = str ''}{"redemptionCode":"fedcba9876543210"}''\<close>
  have a: "list_all is_space []" "list_all is_hex h" "16 \<le> length h"
    by (simp_all add: h_def str_def is_hex_def)
  have b: "none_before (str ''garbage{'') (code_field [] [] h @ post)"
    by (simp add: field_starts_iff h_def post_def str_def code_field_def pat_code_def)
  have c: "two_fields_body = str ''garbage{'' @ code_field [] [] h @ post"
    by (simp add: two_fields_body_def h_def post_def str_def code_field_def)
  have "fst (luckydraw_once lib0 (Replied (status_response 200 two_fields_body))) = PStr h"
    using leftmost_code_field_extracted
      [of "[]" "[]" h "str ''garbage{''" post "status_response 200 two_fields_body" lib0] a b c
    by (simp add: status_response_def)
  with a b c show ?thesis by (simp add: h_def post_def)
qed

text \<open>
  Claim C4 as stated fails for a field that is not the leftmost one: the payload contains
  the field with the value \<^verbatim>\<open>fedcba9876543210\<close>, and the code returned is another one.
\<close>

theorem later_code_field_counterexample:
  \<open>contains (str ''"redemptionCode":"fedcba9876543210"'') two_fields_body \<and>
   fst (luckydraw_once lib0 (Replied (status_response 200 two_fields_body))) \<noteq>
     PStr (str ''fedcba9876543210'')\<close>
proof -
  have "re_search pat_code two_fields_body = Some [str ''0123456789abcdef'']"
    by (simp add: two_fields_body_def str_def pat_code_def is_space_def is_hex_def)
  then have "fst (interpret_response lib0 200 two_fields_body) = PStr (str ''0123456789abcdef'')"
    by (rule interpret_code_found) (simp add: str_def)
  moreover have \<open>contains (str ''"redemptionCode":"fedcba9876543210"'') two_fields_body\<close>
    by (simp add: two_fields_body_def str_def)
  ultimately show ?thesis
    by (simp add: luckydraw_once_def status_response_def str_def)
qed

section \<open>The status policy of \<^verbatim>\<open>luckydraw_once\<close>\<close>

lemma contains_iff: "contains sub xs \<longleftrightarrow> (\<exists>a b. xs = a @ sub @ b)"
proof (induction xs)
  case Nil
  then show ?case by auto
next
  case (Cons x xs)
  have "(\<exists>a b. x # xs = a @ sub @ b) \<longleftrightarrow>
        (\<exists>b. x # xs = sub @ b) \<or> (\<exists>a b. xs = a @ sub @ b)"
  proof
    assume "\<exists>a b. x # xs = a @ sub @ b"
    then obtain a b where ab: "x # xs = a @ sub @ b" by blast
    show "(\<exists>b. x # xs = sub @ b) \<or> (\<exists>a b. xs = a @ sub @ b)"
    proof (cases a)
      case Nil
      with ab show ?thesis by auto
    next
      case (Cons y ys)
      with ab have "xs = ys @ sub @ b" by simp
      then show ?thesis by blast
    qed
  next
    assume "(\<exists>b. x # xs = sub @ b) \<or> (\<exists>a b. xs = a @ sub @ b)"
    then show "\<exists>a b. x # xs = a @ sub @ b"
    proof
      assume "\<exists>b. x # xs = sub @ b"
      then obtain b where "x # xs = [] @ sub @ b" by auto
      then show ?thesis by blast
    next
      assume "\<exists>a b. xs = a @ sub @ b"
      then obtain a b where "x # xs = (x # a) @ sub @ b" by auto
      then show ?thesis by blast
    qed
  qed
  moreover have "take (length sub) (x # xs) = sub \<longleftrightarrow> (\<exists>b. x # xs = sub @ b)"
    by (metis append_eq_conv_conj append_take_drop_id)
  ultimately show ?case using Cons.IH by simp
qed

lemma challenge_differs: "msg_403_challenge \<noteq> msg_403_expired"
  by (simp add: msg_403_challenge_def msg_403_expired_def str_def)

text \<open>
  Claim C9, as amended. Status 401: no code and the message for a missing login. Status 403:
  no code, and the message for a bot challenge if the marker \<^verbatim>\<open>Just a moment\<close> occurs within
  the first 200 characters of the body, the message for expired credentials otherwise; the
  two messages differ. Status 500 and above: no code and the server error message with the
  status. Every other status: the result is that of the interpreter on the decoded body.
\<close>

theorem draw_status_policy:
  "(status_code r = 401 \<longrightarrow>
      luckydraw_once L (Replied r) =
        (PNone, PStr msg_401, PDict [(str ''status'', PInt 401)])) \<and>
   (status_code r = 403 \<longrightarrow>
      luckydraw_once L (Replied r) =
        (PNone,
         PStr (if \<exists>a b. take 200 (body_text r) = a @ str ''Just a moment'' @ b
               then msg_403_challenge else msg_403_expired),
         PDict [(str ''status'', PInt 403),
                (str ''preview'', PStr (take 200 (body_text r)))])) \<and>
   (500 \<le> status_code r \<longrightarrow>
      luckydraw_once L (Replied r) =
        (PNone, PStr (msg_server_error @ show_int (status_code r)),
         PDict [(str ''status'', PInt (status_code r))])) \<and>
   (status_code r \<noteq> 401 \<and> status_code r \<noteq> 403 \<and> status_code r < 500 \<longrightarrow>
      luckydraw_once L (Replied r) =
        interpret_response L (status_code r) (content_utf8 r)) \<and>
   msg_403_challenge \<noteq> msg_403_expired"
proof (intro conjI impI)
  assume "status_code r = 401"
  then show "luckydraw_once L (Replied r) =
      (PNone, PStr msg_401, PDict [(str ''status'', PInt 401)])"
    by (simp add: luckydraw_once_def)
next
  assume "status_code r = 403"
  then show "luckydraw_once L (Replied r) =
      (PNone,
       PStr (if \<exists>a b. take 200 (body_text r) = a @ str ''Just a moment'' @ b
             then msg_403_challenge else msg_403_expired),
       PDict [(str ''status'', PInt 403), (str ''preview'', PStr (take 200 (body_text r)))])"
    by (simp add: luckydraw_once_def Let_def contains_iff)
next
  assume "500 \<le> status_code r"
  then show "luckydraw_once L (Replied r) =
      (PNone, PStr (msg_server_error @ show_int (status_code r)),
       PDict [(str ''status'', PInt (status_code r))])"
    by (simp add: luckydraw_once_def)
next
  assume "status_code r \<noteq> 401 \<and> status_code r \<noteq> 403 \<and> status_code r < 500"
  then show "luckydraw_once L (Replied r) =
      interpret_response L (status_code r) (content_utf8 r)"
    by (simp add: luckydraw_delegates)
next
  show "msg_403_challenge \<noteq> msg_403_expired" by (rule challenge_differs)
qed

lemma marker_found: "\<exists>a b. take 200 (str ''<title>Just a moment...</title>'') =
    a @ str ''Just a moment'' @ b"
proof -
  have "take 200 (str ''<title>Just a moment...</title>'') =
      str ''<title>'' @ str ''Just a moment'' @ str ''...</title>''"
    by (simp add: str_def)
  then show ?thesis by blast
qed

lemma marker_not_found: "\<not> (\<exists>a b. take 200 (str ''Forbidden'') = a @ str ''Just a moment'' @ b)"
proof -
  have "\<not> contains (str ''Just a moment'') (take 200 (str ''Forbidden''))"
    by (simp add: str_def)
  then show ?thesis by (simp add: contains_iff)
qed

theorem draw_status_policy_witness:
  "luckydraw_once lib0 (Replied (status_response 401 [])) =
     (PNone, PStr msg_401, PDict [(str ''status'', PInt 401)]) \<and>
   fst (snd (luckydraw_once lib0
     (Replied (status_response 403 (str ''<title>Just a moment...</title>''))))) =
     PStr msg_403_challenge \<and>
   fst (snd (luckydraw_once lib0 (Replied (status_response 403 (str ''Forbidden''))))) =
     PStr msg_403_expired \<and>
   luckydraw_once lib0 (Replied (status_response 503 [])) =
     (PNone, PStr (msg_server_error @ str ''503''), PDict [(str ''status'', PInt 503)]) \<and>
   luckydraw_once lib0 (Replied (status_response 200 [])) =
     interpret_response lib0 200 []"
proof -
  have d: "show_int 503 = str ''503''"
    by (simp add: show_int_def digits10.simps str_def)
  show ?thesis
    using draw_status_policy [of "status_response 401 []" lib0]
      draw_status_policy [of "status_response 403 (str ''<title>Just a moment...</title>'')" lib0]
      draw_status_policy [of "status_response 403 (str ''Forbidden'')" lib0]
      draw_status_policy [of "status_response 503 []" lib0]
      draw_status_policy [of "status_response 200 []" lib0]
      marker_found marker_not_found d
    by (simp add: status_response_def)
qed

lemma late_marker_preview: "take 200 late_marker_body = replicate 200 32"
  by (simp add: late_marker_body_def)

text \<open>
  Claim C9 as stated fails when the marker occurs only after the first 200 characters: the
  body contains it, and the message is the one for expired credentials.
\<close>

theorem late_marker_counterexample:
  "contains (str ''Just a moment'') late_marker_body \<and>
   fst (snd (luckydraw_once lib0 (Replied (status_response 403 late_marker_body)))) =
     PStr msg_403_expired"
proof -
  have "late_marker_body = replicate 200 32 @ str ''Just a moment'' @ []"
    by (simp add: late_marker_body_def)
  then have "contains (str ''Just a moment'') late_marker_body"
    unfolding contains_iff by blast
  moreover have "\<not> contains (str ''Just a moment'') (replicate 200 32)"
  proof
    assume "contains (str ''Just a moment'') (replicate 200 32)"
    then obtain a b where "replicate 200 (32::nat) = a @ str ''Just a moment'' @ b"
      unfolding contains_iff by blast
    then have "74 \<in> set (replicate 200 (32::nat))"
      by (simp add: str_def)
    then show False by simp
  qed
  ultimately show ?thesis
    by (simp add: luckydraw_once_def status_response_def Let_def late_marker_preview)
qed

section \<open>The daily counter\<close>


lemma get_today_counts_dict:
  "get_today_counts L today (PDict skvs) =
     (case (case map_of skvs (str ''days'') of Some v \<Rightarrow> v | None \<Rightarrow> PDict []) of
        PDict dkvs \<Rightarrow>
          (case (case map_of dkvs today of Some v \<Rightarrow> v | None \<Rightarrow> PDict []) of
             PDict tkvs \<Rightarrow>
               py_int L (case map_of tkvs (str ''tries'') of Some v \<Rightarrow> v | None \<Rightarrow> PInt 0)
           | _ \<Rightarrow> Inl AttributeError)
      | _ \<Rightarrow> Inl AttributeError)"
  by (simp add: get_today_counts_def bind_exn_def split: option.split pyval.split)










lemma final_aborted [simp]: "final (aborted w e) = w"
  by (simp add: aborted_def)

lemma raised_aborted [simp]: "raised (aborted w e) = Some e"
  by (simp add: aborted_def)

lemma final_finish [simp]: "final (finish L E target w) = w"
  by (simp add: finish_def Let_def aborted_def split: sum.splits)

section \<open>The run as a whole\<close>

lemma main_cases:
  "main L E =
     (if missing_env E \<noteq> [] then
        aborted \<lparr>state = load_state L (state_file E), disk = state_file E, draws = 0,
                 redeemed = [], results = []\<rparr>
          (SystemExit (msg_missing_env @ join_str (str '', '') (missing_env E)))
      else case get_today_counts L (today_key E) (load_state L (state_file E)) of
        Inl e \<Rightarrow>
          aborted \<lparr>state = load_state L (state_file E), disk = state_file E, draws = 0,
                   redeemed = [], results = []\<rparr> e
      | Inr already \<Rightarrow>
          (case attempts L E [0..<nat (max 0 (min (MAX_TIMES E) 5 - already))]
                  \<lparr>state = load_state L (state_file E), disk = state_file E, draws = 0,
                   redeemed = [], results = []\<rparr> of
             (w, Some e) \<Rightarrow> aborted w e
           | (w, None) \<Rightarrow> finish L E (min (MAX_TIMES E) 5) w))"
  by (simp add: main_def Let_def split: sum.split)



section \<open>Draws that fail\<close>











section \<open>After the loop\<close>

text \<open>
  What one record adds to the total: an integer amount its value, a boolean amount 0 or 1,
  and every other amount nothing.
\<close>

lemma total_amount_Nil:
  "total_amount [] = 0"
  by (simp add: total_amount_def)

lemma total_amount_Cons:
  "total_amount (r # rs) =
     (case dict_get r (str ''topup_amount'') of
        PInt i \<Rightarrow> i
      | PBool b \<Rightarrow> (if b then 1 else 0)
      | _ \<Rightarrow> 0) + total_amount rs"
  by (simp add: total_amount_def split: pyval.split)











section \<open>The end-to-end scenario, step by step\<close>

text \<open>
  \<open>str\<close> is injective, so keys written as literals are compared as literals.
\<close>

lemma str_eq_iff: "str a = str b \<longleftrightarrow> a = b"
  by (simp add: str_def inj_map_eq_map inj_of_char)

lemma str_empty_iff: "str a = [] \<longleftrightarrow> a = []"
  by (simp add: str_def)

lemma bump_day_state:
  "bump_today_count L today 1 (day_state today n) = Inr (day_state today (n + 1))"
  by (simp add: bump_today_count_def day_state_def bind_exn_def)

lemma get_day_state: "get_today_counts L today (day_state today n) = Inr n"
  by (simp add: get_today_counts_dict day_state_def)

lemma e2e_draw0:
  "luckydraw_once L (Replied (status_response 401 [])) =
     (PNone, PStr msg_401, PDict [(str ''status'', PInt 401)])"
  by (simp add: luckydraw_once_def status_response_def)

lemma e2e_code: "re_search pat_code e2e_draw_body = Some [str ''abcdef1234567890'']"
  by (simp add: e2e_draw_body_def str_def pat_code_def is_space_def is_hex_def)

lemma e2e_message: "re_search pat_message e2e_draw_body = None"
  by (simp add: e2e_draw_body_def str_def pat_message_def)

lemma e2e_fragments: "re_findall pat_object e2e_draw_body = [e2e_fragment]"
  by (simp add: e2e_draw_body_def e2e_fragment_def str_def pat_object_def any_char_def
        re_findall.simps)

lemma show_200: "show_int 200 = str ''200''"
  by (simp add: show_int_def digits10.simps str_def)

lemma e2e_draw1:
  "luckydraw_once (e2e_lib d) (Replied (status_response 200 e2e_draw_body)) =
     (PStr (str ''abcdef1234567890''), PStr (str ''HTTP 200''),
      PDict [(str ''redemptionCode'', PStr (str ''abcdef1234567890''))])"
proof -
  have "first_loads (e2e_lib d) [e2e_fragment] =
      PDict [(str ''redemptionCode'', PStr (str ''abcdef1234567890''))]"
    by (simp add: e2e_lib_def e2e_fragment_def e2e_state_text_def e2e_state5_text_def str_eq_iff)
  moreover have "dict_get [(str ''redemptionCode'', PStr (str ''abcdef1234567890''))]
      (str ''message'') = PNone"
    by (simp add: dict_get_def str_eq_iff)
  ultimately have "interpret_response (e2e_lib d) 200 e2e_draw_body =
     (PStr (str ''abcdef1234567890''), PStr (str ''HTTP 200''),
      PDict [(str ''redemptionCode'', PStr (str ''abcdef1234567890''))])"
    by (simp add: interpret_response_def e2e_code e2e_message e2e_fragments group1_def
          py_or_def show_200 str_empty_iff Let_def)
        (simp add: str_def)
  then show ?thesis
    by (simp add: luckydraw_once_def status_response_def)
qed

lemma e2e_topup:
  "topup_once (e2e_lib d) (Replied (status_response 200 e2e_topup_body)) =
     Inr (True, PStr (str ''ok''), PInt 100)"
proof -
  have "json_loads (e2e_lib d) e2e_topup_body =
      Some (PDict [(str ''success'', PBool True), (str ''data'', PInt 100),
                   (str ''message'', PStr (str ''ok''))])"
    by (simp add: e2e_lib_def e2e_topup_body_def e2e_fragment_def e2e_state_text_def e2e_state5_text_def
          str_eq_iff)
  then show ?thesis
    by (simp add: topup_once_def status_response_def bind_exn_def str_eq_iff)
qed

lemma bool_topup:
  "topup_once (e2e_lib d) (Replied (status_response 200 bool_topup_body)) =
     Inr (True, PStr (str ''ok''), PBool True)"
proof -
  have "json_loads (e2e_lib d) bool_topup_body =
      Some (PDict [(str ''success'', PBool True), (str ''data'', PBool True),
                   (str ''message'', PStr (str ''ok''))])"
    by (simp add: e2e_lib_def e2e_topup_body_def bool_topup_body_def e2e_fragment_def
          e2e_state_text_def e2e_state5_text_def str_eq_iff)
  then show ?thesis
    by (simp add: topup_once_def status_response_def bind_exn_def str_eq_iff)
qed

lemma e2e_mask: "mask_code_py L (PStr (str ''abcdef1234567890'')) = Inr (str ''abcd****7890'')"
  by (simp add: mask_code_py_def mask_code_def str_def)

lemma e2e_attempt0:
  "attempt (e2e_lib d) (e2e_env mx tok body) 0
     \<lparr>state = day_state (str ''2026-01-01'') 3, disk = f, draws = 0, redeemed = [],
      results = []\<rparr> =
   (\<lparr>state = day_state (str ''2026-01-01'') 4,
     disk = Some (d (day_state (str ''2026-01-01'') 4)), draws = Suc 0, redeemed = [],
     results = [e2e_records amount ! 0]\<rparr>, None)"
proof -
  have "msg_401 \<noteq> []" by (simp add: msg_401_def)
  then show ?thesis
    by (simp add: attempt_def e2e_env_def e2e_draw0 bump_day_state save_state_def
          no_code_def new_record_def py_or_def e2e_records_def Let_def str_eq_iff e2e_lib_def)
qed

lemma e2e_attempt1:
  assumes "topup_once (e2e_lib d) (Replied (status_response 200 body)) =
             Inr (True, PStr (str ''ok''), amount)"
    and "amount \<noteq> PNone"
  shows "attempt (e2e_lib d) (e2e_env mx tok body) (Suc 0)
     \<lparr>state = day_state (str ''2026-01-01'') 4, disk = f, draws = Suc 0, redeemed = [],
      results = [e2e_records amount ! 0]\<rparr> =
   (\<lparr>state = day_state (str ''2026-01-01'') 5,
     disk = Some (d (day_state (str ''2026-01-01'') 5)), draws = 2,
     redeemed = [PStr (str ''abcdef1234567890'')],
     results = e2e_records amount\<rparr>, None)"
proof -
  have t: "topup_once (e2e_lib d) (topup_reply (e2e_env mx tok body) (Suc 0) c) =
      Inr (True, PStr (str ''ok''), amount)" for c
    using assms(1) by (simp add: e2e_env_def)
  have l: "luckydraw_once (e2e_lib d) (draw_reply (e2e_env mx tok body) (Suc 0)) =
     (PStr (str ''abcdef1234567890''), PStr (str ''HTTP 200''),
      PDict [(str ''redemptionCode'', PStr (str ''abcdef1234567890''))])"
    using e2e_draw1 [of d] by (simp add: e2e_env_def)
  have k: "today_key (e2e_env mx tok body) = str ''2026-01-01''"
    by (simp add: e2e_env_def)
  have s: "save_state (e2e_lib d) st = Some (d st)" for st
    by (simp add: save_state_def e2e_lib_def)
  show ?thesis
    using assms(2)
    by (simp add: attempt_def l k t s bump_day_state e2e_mask redeem_def new_record_def
          py_or_def e2e_records_def str_eq_iff str_empty_iff Let_def)
qed

lemma upt_two: "[0..<2] = [0, Suc 0]"
  by (simp add: upt_rec)

lemma e2e_start:
  "missing_env (e2e_env mx tok body) = []"
  "load_state (e2e_lib d) (state_file (e2e_env mx tok body)) = day_state (str ''2026-01-01'') 3"
  "today_key (e2e_env mx tok body) = str ''2026-01-01''"
  "MAX_TIMES (e2e_env mx tok body) = mx"
  by (simp_all add: missing_env_def e2e_env_def load_state_def e2e_lib_def str_empty_iff)

lemma e2e_main:
  assumes "topup_once (e2e_lib d) (Replied (status_response 200 body)) =
             Inr (True, PStr (str ''ok''), amount)"
    and "amount \<noteq> PNone"
  shows "main (e2e_lib d) (e2e_env 5 tok body) =
           finish (e2e_lib d) (e2e_env 5 tok body) 5
             \<lparr>state = day_state (str ''2026-01-01'') 5,
              disk = Some (d (day_state (str ''2026-01-01'') 5)), draws = 2,
              redeemed = [PStr (str ''abcdef1234567890'')],
              results = e2e_records amount\<rparr>"
  by (simp add: main_cases e2e_start get_day_state upt_two
        e2e_attempt0 [of d 5 tok body _ amount] e2e_attempt1 [OF assms])

lemma render_row_strings:
  assumes "\<exists>a b c t.
             map_of it (str ''draw_msg'') = Some (PStr a) \<and>
             map_of it (str ''code_mask'') = Some (PStr b) \<and>
             map_of it (str ''topup_ok'') = Some c \<and>
             map_of it (str ''topup_msg'') = Some (PStr t)"
  shows "\<exists>row. render_row L i it = Inr row"
  using assms by (auto simp: render_row_def dict_index_def bind_exn_def)

lemma push_line_present:
  assumes "\<exists>c b. map_of r (str ''topup_ok'') = Some c \<and> map_of r (str ''code_mask'') = Some b"
  shows "\<exists>line. push_line L i r = Inr line"
  using assms by (auto simp: push_line_def dict_index_def bind_exn_def)

lemma render_rows_strings:
  assumes "\<forall>it \<in> set items. \<exists>a b c t.
             map_of it (str ''draw_msg'') = Some (PStr a) \<and>
             map_of it (str ''code_mask'') = Some (PStr b) \<and>
             map_of it (str ''topup_ok'') = Some c \<and>
             map_of it (str ''topup_msg'') = Some (PStr t)"
  shows "\<exists>rows. render_rows L i items = Inr rows"
  using assms
proof (induction items arbitrary: i)
  case Nil
  then show ?case by simp
next
  case (Cons it items)
  from Cons.prems have "\<exists>row. render_row L i it = Inr row"
    by (intro render_row_strings) simp
  then obtain row where "render_row L i it = Inr row" by blast
  moreover from Cons obtain rows where "render_rows L (Suc i) items = Inr rows"
    by fastforce
  ultimately show ?case by (simp add: bind_exn_def)
qed

lemma push_lines_present:
  assumes "\<forall>r \<in> set rs. \<exists>c b.
             map_of r (str ''topup_ok'') = Some c \<and> map_of r (str ''code_mask'') = Some b"
  shows "\<exists>lines. push_lines L i rs = Inr lines"
  using assms
proof (induction rs arbitrary: i)
  case Nil
  then show ?case by simp
next
  case (Cons r rs)
  from Cons.prems have "\<exists>line. push_line L i r = Inr line"
    by (intro push_line_present) simp
  then obtain line where "push_line L i r = Inr line" by blast
  moreover from Cons obtain lines where "push_lines L (Suc i) rs = Inr lines"
    by fastforce
  ultimately show ?case by (simp add: bind_exn_def)
qed

lemma e2e_render: "\<exists>pg. render_html L d (e2e_records amount) tot = Inr pg"
proof -
  have "\<exists>rows. render_rows L 1 (e2e_records amount) = Inr rows"
    by (rule render_rows_strings) (simp add: e2e_records_def str_eq_iff)
  then show ?thesis by (auto simp: render_html_def bind_exn_def)
qed

lemma e2e_lines: "\<exists>lines. push_lines L 0 (e2e_records amount) = Inr lines"
  by (rule push_lines_present) (simp add: e2e_records_def str_eq_iff)

lemma e2e_success: "has_success (e2e_records amount)"
  by (simp add: has_success_def e2e_records_def dict_get_def py_or_def str_eq_iff
        str_empty_iff)

lemma e2e_nonempty: "e2e_records amount \<noteq> []"
  by (simp add: e2e_records_def)

lemma e2e_outcome:
  assumes "topup_once (e2e_lib d) (Replied (status_response 200 body)) =
             Inr (True, PStr (str ''ok''), amount)"
    and "amount \<noteq> PNone"
  shows "\<exists>pg lines.
           push_lines (e2e_lib d) 0 (e2e_records amount) = Inr lines \<and>
           main (e2e_lib d) (e2e_env 5 tok body) =
             \<lparr>final = \<lparr>state = day_state (str ''2026-01-01'') 5,
                       disk = Some (d (day_state (str ''2026-01-01'') 5)), draws = 2,
                       redeemed = [PStr (str ''abcdef1234567890'')],
                       results = e2e_records amount\<rparr>,
              report_json = Some (d (PDict
                [(str ''date'', PStr (str ''2026-01-01 08:00:00'')),
                 (str ''timezone'', PStr (str ''Asia/Singapore'')),
                 (str ''total_amount'', PInt (total_amount (e2e_records amount))),
                 (str ''items'', PList (map PDict (e2e_records amount))),
                 (str ''today_tried'', PInt 5),
                 (str ''today_target'', PInt 5)])),
              report_html = Some pg,
              push = send_push (e2e_env 5 tok body) (push_title (str ''2026-01-01 08:00:00''))
                       (push_content (total_amount (e2e_records amount)) lines),
              raised = None\<rparr>"
proof -
  let ?L = "e2e_lib d" and ?E = "e2e_env 5 tok body"
  obtain pg where pg: "render_html ?L (now_text ?E) (e2e_records amount)
      (total_amount (e2e_records amount)) = Inr pg"
    using e2e_render by blast
  obtain lines where ln: "push_lines ?L 0 (e2e_records amount) = Inr lines"
    using e2e_lines by blast
  have n: "now_text ?E = str ''2026-01-01 08:00:00''" "json_dumps ?L = d"
    by (simp_all add: e2e_env_def e2e_lib_def)
  show ?thesis
    apply (rule exI [of _ pg], rule exI [of _ lines])
    using pg ln n
    by (simp add: e2e_main [OF assms] finish_def e2e_start get_day_state e2e_success
          e2e_nonempty summary_def Let_def)
qed

lemma e2e_total: "total_amount (e2e_records (PInt 100)) = 100"
  by (simp add: total_amount_def e2e_records_def dict_get_def str_eq_iff)

lemma bool_total: "total_amount (e2e_records (PBool True)) = 1"
  by (simp add: total_amount_def e2e_records_def dict_get_def str_eq_iff)

section \<open>Runs whose draws all time out\<close>











section \<open>The claims about the run\<close>











text \<open>
  Claim C3 fails on the code. In the end-to-end scenario the text written to
  \<^verbatim>\<open>dist/summary.json\<close> is the serialisation of a summary whose second item holds the
  redemption code \<^verbatim>\<open>abcdef1234567890\<close> in full under the key \<^verbatim>\<open>code\<close>, next to its masked form.
\<close>

theorem summary_json_holds_full_code:
  "report_json (main (e2e_lib dumps) (e2e_env 5 tok e2e_topup_body)) =
     Some (dumps (PDict
       [(str ''date'', PStr (str ''2026-01-01 08:00:00'')),
        (str ''timezone'', PStr (str ''Asia/Singapore'')),
        (str ''total_amount'', PInt 100),
        (str ''items'', PList
          [PDict (failure_record msg_401 (msg_no_code @ [0xFF08] @ msg_401 @ [0xFF09])),
           PDict [(str ''draw_msg'', PStr (str ''HTTP 200'')),
                  (str ''code'', PStr (str ''abcdef1234567890'')),
                  (str ''code_mask'', PStr (str ''abcd****7890'')),
                  (str ''topup_ok'', PBool True),
                  (str ''topup_amount'', PInt 100),
                  (str ''topup_msg'', PStr (str ''ok''))]]),
        (str ''today_tried'', PInt 5),
        (str ''today_target'', PInt 5)]))"
proof -
  from e2e_outcome [OF e2e_topup, of dumps tok] obtain pg lines where
    "main (e2e_lib dumps) (e2e_env 5 tok e2e_topup_body) =
       \<lparr>final = \<lparr>state = day_state (str ''2026-01-01'') 5,
                 disk = Some (dumps (day_state (str ''2026-01-01'') 5)), draws = 2,
                 redeemed = [PStr (str ''abcdef1234567890'')],
                 results = e2e_records (PInt 100)\<rparr>,
        report_json = Some (dumps (PDict
          [(str ''date'', PStr (str ''2026-01-01 08:00:00'')),
           (str ''timezone'', PStr (str ''Asia/Singapore'')),
           (str ''total_amount'', PInt (total_amount (e2e_records (PInt 100)))),
           (str ''items'', PList (map PDict (e2e_records (PInt 100)))),
           (str ''today_tried'', PInt 5),
           (str ''today_target'', PInt 5)])),
        report_html = Some pg,
        push = send_push (e2e_env 5 tok e2e_topup_body) (push_title (str ''2026-01-01 08:00:00''))
                 (push_content (total_amount (e2e_records (PInt 100))) lines),
        raised = None\<rparr>"
    by auto
  then show ?thesis
    by (simp add: e2e_total) (simp add: e2e_records_def failure_record_def)
qed

text \<open>
  Claim C6 fails on the code. When the top-up response carries \<^verbatim>\<open>"data": true\<close>, the
  record's \<^verbatim>\<open>topup_amount\<close> is the boolean \<^verbatim>\<open>True\<close>, which is not an integral amount, and
  the total amount of the run is 1 and not 0.
\<close>

theorem boolean_amount_counted:
  "results (final (main (e2e_lib dumps) (e2e_env 5 tok bool_topup_body))) =
     e2e_records (PBool True) \<and>
   dict_get (e2e_records (PBool True) ! 1) (str ''topup_amount'') = PBool True \<and>
   total_amount (results (final (main (e2e_lib dumps) (e2e_env 5 tok bool_topup_body)))) = 1"
proof -
  from e2e_outcome [OF bool_topup, of dumps tok] have
    "results (final (main (e2e_lib dumps) (e2e_env 5 tok bool_topup_body))) =
       e2e_records (PBool True)"
    by auto
  moreover have "dict_get (e2e_records (PBool True) ! 1) (str ''topup_amount'') = PBool True"
    by (simp add: e2e_records_def dict_get_def str_eq_iff)
  ultimately show ?thesis by (simp add: bool_total)
qed

end
